theory Spec2Isabelle
  imports Main "HOL-Library.AList"
begin

section \<open>JavaScript values\<close>

text \<open>
  The request bodies, the provider's answers and the parsed model output are JSON values.
  An object is the list of its own properties in insertion order (a lookup takes the first
  binding of a key); \<open>JUndefined\<close> is what reading an absent property gives. A string is
  its UTF-8 byte sequence. Numbers are kept abstract (type \<open>'n\<close>): the program never
  computes with them, it only prints them, tests them for truth and compares one with
  zero, and these three observations are the fields of \<open>numerics\<close>, together with
  the engine's reading of a string as a number in a comparison with zero.
\<close>

datatype 'n jsval =
    JUndefined
  | JNull
  | JBool bool
  | JNum 'n
  | JStr string
  | JArr "'n jsval list"
  | JObj "(string \<times> 'n jsval) list"

record 'n numerics =
  num_text :: "'n \<Rightarrow> string"
  num_truthy :: "'n \<Rightarrow> bool"
  num_positive :: "'n \<Rightarrow> bool"
  str_positive :: "string \<Rightarrow> bool"

text \<open>
  An exception is a value: \<open>TypeError\<close> and \<open>SyntaxError\<close> are raised by the engine
  (the second by \<open>JSON.parse\<close>), \<open>Failure\<close> is an \<open>Error\<close> thrown (or a promise
  rejected) by a library, with the library's message.
\<close>

datatype error = TypeError string | SyntaxError string | Failure string

fun error_message :: "error \<Rightarrow> string" where
  "error_message (TypeError m) = m"
| "error_message (SyntaxError m) = m"
| "error_message (Failure m) = m"

definition then_do :: "error + 'a \<Rightarrow> ('a \<Rightarrow> error + 'b) \<Rightarrow> error + 'b" where
  "then_do m f = (case m of Inl e \<Rightarrow> Inl e | Inr x \<Rightarrow> f x)"

definition nl :: string where
  "nl = [CHR 0x0A]"

definition apostrophe :: string where
  "apostrophe = [CHR 0x27]"

text \<open>\<open>v.k\<close> for a data key \<open>k\<close> (none of the keys the program reads is a member of a prototype).\<close>

definition property :: "(string \<times> 'n jsval) list \<Rightarrow> string \<Rightarrow> 'n jsval" where
  "property kvs k = (case map_of kvs k of None \<Rightarrow> JUndefined | Some v \<Rightarrow> v)"

definition cannot_read :: "string \<Rightarrow> string \<Rightarrow> error" where
  "cannot_read base k =
     TypeError (''Cannot read properties of '' @ base @ '' (reading '' @ apostrophe @ k @ apostrophe @ '')'')"

fun js_get :: "'n jsval \<Rightarrow> string \<Rightarrow> error + 'n jsval" where
  "js_get JUndefined k = Inl (cannot_read ''undefined'' k)"
| "js_get JNull k = Inl (cannot_read ''null'' k)"
| "js_get (JObj kvs) k = Inr (property kvs k)"
| "js_get v k = Inr JUndefined"

fun js_truthy :: "'n numerics \<Rightarrow> 'n jsval \<Rightarrow> bool" where
  "js_truthy N JUndefined = False"
| "js_truthy N JNull = False"
| "js_truthy N (JBool b) = b"
| "js_truthy N (JNum n) = num_truthy N n"
| "js_truthy N (JStr s) = (s \<noteq> [])"
| "js_truthy N (JArr xs) = True"
| "js_truthy N (JObj kvs) = True"

text \<open>
  \<open>String(v)\<close>, as a template literal and \<open>Array.prototype.join\<close> apply it. An object
  prints as \<open>[object Object]\<close> unless it has an own property \<open>toString\<close>, which in a
  JSON value is never callable: the conversion then raises. \<open>join\<close> prints
  \<open>undefined\<close> and \<open>null\<close> elements as the empty string.
\<close>

fun js_toString :: "'n numerics \<Rightarrow> 'n jsval \<Rightarrow> error + string"
  and js_join :: "'n numerics \<Rightarrow> string \<Rightarrow> 'n jsval list \<Rightarrow> error + string" where
  "js_toString N JUndefined = Inr ''undefined''"
| "js_toString N JNull = Inr ''null''"
| "js_toString N (JBool b) = Inr (if b then ''true'' else ''false'')"
| "js_toString N (JNum n) = Inr (num_text N n)"
| "js_toString N (JStr s) = Inr s"
| "js_toString N (JArr xs) = js_join N '','' xs"
| "js_toString N (JObj kvs) =
     (if map_of kvs ''toString'' = None then Inr ''[object Object]''
      else Inl (TypeError ''Cannot convert object to primitive value''))"
| "js_join N sep [] = Inr []"
| "js_join N sep (x # xs) =
     then_do (if x = JUndefined \<or> x = JNull then Inr [] else js_toString N x)
       (\<lambda>s. if xs = [] then Inr s
            else then_do (js_join N sep xs) (\<lambda>r. Inr (s @ sep @ r)))"

text \<open>\<open>Array.prototype.map\<close> with a callback that may throw: the first exception ends it.\<close>

fun js_map :: "('a \<Rightarrow> error + 'b) \<Rightarrow> 'a list \<Rightarrow> error + 'b list" where
  "js_map f [] = Inr []"
| "js_map f (x # xs) = then_do (f x) (\<lambda>y. then_do (js_map f xs) (\<lambda>ys. Inr (y # ys)))"

text \<open>\<open>v > 0\<close>: the operand is converted to a number first.\<close>

fun js_gt_zero :: "'n numerics \<Rightarrow> 'n jsval \<Rightarrow> error + bool" where
  "js_gt_zero N JUndefined = Inr False"
| "js_gt_zero N JNull = Inr False"
| "js_gt_zero N (JBool b) = Inr b"
| "js_gt_zero N (JNum n) = Inr (num_positive N n)"
| "js_gt_zero N (JStr s) = Inr (str_positive N s)"
| "js_gt_zero N (JArr xs) = then_do (js_toString N (JArr xs)) (\<lambda>s. Inr (str_positive N s))"
| "js_gt_zero N (JObj kvs) = then_do (js_toString N (JObj kvs)) (\<lambda>s. Inr False)"

text \<open>\<open>v.length > 0\<close>\<close>

fun length_gt_zero :: "'n numerics \<Rightarrow> 'n jsval \<Rightarrow> error + bool" where
  "length_gt_zero N (JArr xs) = Inr (xs \<noteq> [])"
| "length_gt_zero N (JStr s) = Inr (s \<noteq> [])"
| "length_gt_zero N v = then_do (js_get v ''length'') (js_gt_zero N)"

section \<open>The email renderer (Resend variant, server.js lines 187-229)\<close>

text \<open>The callback of \<open>recipients.map\<close>: \<open>r => typeof r === 'string' ? r : r.email || r\<close>.\<close>

definition recipient_display :: "'n numerics \<Rightarrow> 'n jsval \<Rightarrow> error + 'n jsval" where
  "recipient_display N r =
     (case r of
        JStr s \<Rightarrow> Inr r
      | _ \<Rightarrow> then_do (js_get r ''email'') (\<lambda>e. Inr (if js_truthy N e then e else r)))"

definition recipientsList :: "'n numerics \<Rightarrow> 'n jsval \<Rightarrow> error + string" where
  "recipientsList N recipients =
     then_do (length_gt_zero N recipients)
       (\<lambda>nonempty.
          if nonempty then
            (case recipients of
               JArr rs \<Rightarrow> then_do (js_map (recipient_display N) rs) (js_join N '', '')
             | _ \<Rightarrow> Inl (TypeError ''recipients.map is not a function''))
          else Inr ''No recipients selected'')"

text \<open>\<open>summary.replace(/\n/g, '<br>')\<close>\<close>

definition replace_newlines :: "string \<Rightarrow> string" where
  "replace_newlines s = concat (map (\<lambda>c. if c = CHR 0x0A then ''<br>'' else [c]) s)"

fun summary_replace :: "'n jsval \<Rightarrow> error + string" where
  "summary_replace (JStr s) = Inr (replace_newlines s)"
| "summary_replace JUndefined = Inl (cannot_read ''undefined'' ''replace'')"
| "summary_replace JNull = Inl (cannot_read ''null'' ''replace'')"
| "summary_replace v = Inl (TypeError ''summary.replace is not a function'')"

text \<open>
  A template literal of the source spans several lines; every line of it is preceded by
  a line feed, and the last one is not followed by one.
\<close>

definition template_lines :: "string list \<Rightarrow> string" where
  "template_lines ls = concat (map (\<lambda>l. nl @ l) ls)"

text \<open>The envelope sign of the banner, U+1F4E7, in UTF-8.\<close>

definition envelope :: string where
  "envelope = [CHR 0xF0, CHR 0x9F, CHR 0x93, CHR 0xA7]"

definition html_open :: string where
  \<open>html_open = template_lines
     [''    <html>'',
      ''      <body style="font-family: Arial, sans-serif; line-height: 1.6; color: #333;">'',
      ''        <div style="background-color: #fffbcc; padding: 15px; border-radius: 5px; margin-bottom: 20px; border: 1px solid #f5e642;">'',
      ''          <strong>'' @ envelope @ '' Intended Recipients:</strong> '']\<close>

definition html_after_recipients :: string where
  \<open>html_after_recipients = ''<br>'' @ template_lines
     [''          <em style="color: #666; font-size: 14px;">Note: This test email was sent only to markgleasonwork@gmail.com</em>'',
      ''        </div>'',
      ''        '',
      ''        <h2>Meeting Summary</h2>'',
      ''        <div style="background-color: #f4f4f4; padding: 15px; border-radius: 5px;">'',
      ''          '']\<close>

definition html_after_summary :: string where
  \<open>html_after_summary = template_lines
     [''        </div>'',
      ''        '',
      ''        <h2>Action Items</h2>'',
      ''        <table style="width: 100%; border-collapse: collapse; margin-top: 10px;">'',
      ''          <tr style="background-color: #e9e9e9;">'',
      ''            <th style="padding: 10px; text-align: left; border: 1px solid #ddd;">Action Item</th>'',
      ''            <th style="padding: 10px; text-align: left; border: 1px solid #ddd;">Owner</th>'',
      ''            <th style="padding: 10px; text-align: left; border: 1px solid #ddd;">Timeline</th>'',
      ''          </tr>'']\<close>

definition html_close :: string where
  "html_close = template_lines
     [''        </table>'',
      ''      </body>'',
      ''    </html>'']"

text \<open>The row template of the \<open>forEach\<close> callback, with the three cell texts filled in.\<close>

definition row_html :: "string \<Rightarrow> string \<Rightarrow> string \<Rightarrow> string" where
  \<open>row_html item_text owner_text timeline_text = template_lines
     [''          <tr>'',
      ''            <td style="padding: 10px; border: 1px solid #ddd;">'' @ item_text @ ''</td>'',
      ''            <td style="padding: 10px; border: 1px solid #ddd;">'' @ owner_text @ ''</td>'',
      ''            <td style="padding: 10px; border: 1px solid #ddd;">'' @ timeline_text @ ''</td>'',
      ''          </tr>'']\<close>

text \<open>
  The callback of \<open>actionItems.forEach\<close>: the three substitutions are evaluated and
  converted to text from left to right; \<open>item.timeline || 'Not specified'\<close> is the third.
\<close>

definition action_row :: "'n numerics \<Rightarrow> 'n jsval \<Rightarrow> error + string" where
  "action_row N item =
     then_do (js_get item ''item'') (\<lambda>i.
     then_do (js_toString N i) (\<lambda>item_text.
     then_do (js_get item ''owner'') (\<lambda>ow.
     then_do (js_toString N ow) (\<lambda>owner_text.
     then_do (js_get item ''timeline'') (\<lambda>t.
     then_do (js_toString N (if js_truthy N t then t else JStr ''Not specified'')) (\<lambda>timeline_text.
     Inr (row_html item_text owner_text timeline_text)))))))"

text \<open>The loop \<open>html += row\<close> over the elements of an array, in order.\<close>

fun append_rows :: "'n numerics \<Rightarrow> string \<Rightarrow> 'n jsval list \<Rightarrow> error + string" where
  "append_rows N html [] = Inr html"
| "append_rows N html (item # items) =
     then_do (action_row N item) (\<lambda>row. append_rows N (html @ row) items)"

text \<open>\<open>actionItems.forEach(...)\<close>: only an array has the method.\<close>

fun actionItems_forEach :: "'n numerics \<Rightarrow> string \<Rightarrow> 'n jsval \<Rightarrow> error + string" where
  "actionItems_forEach N html (JArr items) = append_rows N html items"
| "actionItems_forEach N html JUndefined = Inl (cannot_read ''undefined'' ''forEach'')"
| "actionItems_forEach N html JNull = Inl (cannot_read ''null'' ''forEach'')"
| "actionItems_forEach N html v = Inl (TypeError ''actionItems.forEach is not a function'')"

text \<open>
  \<open>formatEmailContent(summary, actionItems, recipients = [])\<close>: the default applies to
  an argument that is \<open>undefined\<close>.
\<close>

definition formatEmailContent ::
  "'n numerics \<Rightarrow> 'n jsval \<Rightarrow> 'n jsval \<Rightarrow> 'n jsval \<Rightarrow> error + string" where
  "formatEmailContent N summary actionItems recipients =
     then_do (recipientsList N (if recipients = JUndefined then JArr [] else recipients)) (\<lambda>rl.
     then_do (summary_replace summary) (\<lambda>sm.
     then_do (actionItems_forEach N
                (html_open @ rl @ html_after_recipients @ sm @ html_after_summary) actionItems) (\<lambda>html.
     Inr (html @ html_close))))"

section \<open>The email renderer (nodemailer variant, server.js lines 401-433)\<close>

definition html_open_nodemailer :: string where
  \<open>html_open_nodemailer = template_lines
     [''    <html>'',
      ''      <body style="font-family: Arial, sans-serif; line-height: 1.6; color: #333;">'',
      ''        <h2>Meeting Summary</h2>'',
      ''        <div style="background-color: #f4f4f4; padding: 15px; border-radius: 5px;">'',
      ''          '']\<close>

definition formatEmailContent_nodemailer ::
  "'n numerics \<Rightarrow> 'n jsval \<Rightarrow> 'n jsval \<Rightarrow> error + string" where
  "formatEmailContent_nodemailer N summary actionItems =
     then_do (summary_replace summary) (\<lambda>sm.
     then_do (actionItems_forEach N (html_open_nodemailer @ sm @ html_after_summary) actionItems) (\<lambda>html.
     Inr (html @ html_close)))"

section \<open>Responses\<close>

text \<open>
  \<open>res.json(b)\<close> answers with status 200, \<open>res.status(c).json(b)\<close> with status \<open>c\<close>;
  \<open>body\<close> is the value handed to \<open>json\<close>, before it is serialised.
\<close>

record 'n response =
  status :: nat
  body :: "'n jsval"

definition failure :: "nat \<Rightarrow> 'n jsval \<Rightarrow> 'n response" where
  "failure code msg =
     \<lparr>status = code, body = JObj [(''success'', JBool False), (''error'', msg)]\<rparr>"

text \<open>\<open>const { k } = v\<close>, where \<open>src\<close> is the source text of the right-hand side.\<close>

definition cannot_destructure :: "string \<Rightarrow> string \<Rightarrow> string \<Rightarrow> error" where
  "cannot_destructure base src k =
     TypeError (''Cannot destructure property '' @ apostrophe @ k @ apostrophe @ '' of ''
       @ apostrophe @ src @ apostrophe @ '' as it is '' @ base @ ''.'')"

fun js_destructure :: "string \<Rightarrow> 'n jsval \<Rightarrow> string \<Rightarrow> error + 'n jsval" where
  "js_destructure src JUndefined k = Inl (cannot_destructure ''undefined'' src k)"
| "js_destructure src JNull k = Inl (cannot_destructure ''null'' src k)"
| "js_destructure src v k = js_get v k"

section \<open>File intake (server.js lines 54-85 and 176-185)\<close>

text \<open>
  \<open>path.extname\<close> of Node (POSIX flavour): trailing slashes are ignored, the last
  component of the path is taken, and the extension runs from its last dot to its end;
  it is empty when the component has no dot, when its only dot is its first character,
  and when the component is \<open>..\<close>.
\<close>

definition last_component :: "string \<Rightarrow> string" where
  "last_component p =
     rev (takeWhile (\<lambda>c. c \<noteq> CHR ''/'') (dropWhile (\<lambda>c. c = CHR ''/'') (rev p)))"

definition path_extname :: "string \<Rightarrow> string" where
  "path_extname p =
     (let b = last_component p;
          startDot = length b - Suc (length (takeWhile (\<lambda>c. c \<noteq> CHR ''.'') (rev b)))
      in if CHR ''.'' \<notin> set b \<or> startDot = 0 \<or> b = ''..'' then [] else drop startDot b)"

text \<open>
  \<open>String.prototype.toLowerCase\<close> on the letters A to Z. (Of the characters outside
  ASCII, none is mapped by the engine to a letter of \<open>.txt\<close> or \<open>.csv\<close>, so the two
  comparisons of the handler are decided by this part of the mapping.)
\<close>

definition lower_char :: "char \<Rightarrow> char" where
  "lower_char c =
     (case map_of (zip ''ABCDEFGHIJKLMNOPQRSTUVWXYZ'' ''abcdefghijklmnopqrstuvwxyz'') c of
        None \<Rightarrow> c
      | Some l \<Rightarrow> l)"

definition toLowerCase :: "string \<Rightarrow> string" where
  "toLowerCase s = map lower_char s"

text \<open>
  What multer hands to the handler for one uploaded file, and the two ways the handler
  reads a stored file: \<open>fs.readFile(path, 'utf-8')\<close>, and the stream that
  \<open>fs.createReadStream(path).pipe(csv())\<close> builds. The stream emits rows and then
  ends, or the parser fails, or the read stream fails.
\<close>

record upload_file =
  originalname :: string
  path :: string

datatype stream_end = Ended | Parser_failed string | Read_failed string

record 'n storage =
  readFile :: "string \<Rightarrow> error + string"
  csv_rows :: "string \<Rightarrow> 'n jsval list \<times> stream_end"

text \<open>
  \<open>parseCSV\<close>: every \<open>data\<close> event pushes a row, \<open>end\<close> resolves with the rows, and
  the \<open>error\<close> listener rejects. The listeners are on the parser that \<open>pipe\<close>
  returns, and \<open>pipe\<close> does not pass on the errors of the read stream: an error of the
  read stream has no listener, the engine raises it outside the handler and the process
  ends. That outcome is \<open>None\<close>: the promise is never settled and the request gets no
  response.
\<close>

definition parseCSV :: "'n storage \<Rightarrow> string \<Rightarrow> (error + 'n jsval list) option" where
  "parseCSV S filePath =
     (case csv_rows S filePath of
        (results, Ended) \<Rightarrow> Some (Inr results)
      | (results, Parser_failed m) \<Rightarrow> Some (Inl (Failure m))
      | (results, Read_failed m) \<Rightarrow> None)"

fun process_files ::
  "'n storage \<Rightarrow> 'n jsval list \<Rightarrow> upload_file list \<Rightarrow> (error + 'n jsval list) option" where
  "process_files S processedFiles [] = Some (Inr processedFiles)"
| "process_files S processedFiles (file # files) =
     (let fileType = toLowerCase (path_extname (originalname file))
      in if fileType = ''.txt'' then
           (case readFile S (path file) of
              Inl e \<Rightarrow> Some (Inl e)
            | Inr content \<Rightarrow>
                process_files S
                  (processedFiles @
                     [JObj [(''name'', JStr (originalname file)),
                            (''type'', JStr ''transcript''),
                            (''content'', JStr content)]]) files)
         else if fileType = ''.csv'' then
           (case parseCSV S (path file) of
              None \<Rightarrow> None
            | Some (Inl e) \<Rightarrow> Some (Inl e)
            | Some (Inr contacts) \<Rightarrow>
                process_files S
                  (processedFiles @
                     [JObj [(''name'', JStr (originalname file)),
                            (''type'', JStr ''contacts''),
                            (''content'', JArr contacts)]]) files)
         else process_files S processedFiles files)"

text \<open>
  The handler of \<open>POST /upload\<close>: the response, if there is one. \<open>req.files\<close> is
  absent when the request was not a multipart form; iterating it then raises inside the
  \<open>try\<close>.
\<close>

definition upload :: "'n storage \<Rightarrow> upload_file list option \<Rightarrow> 'n response option" where
  "upload S req_files =
     (case (case req_files of
              None \<Rightarrow> Some (Inl (TypeError ''files is not iterable''))
            | Some files \<Rightarrow> process_files S [] files) of
        None \<Rightarrow> None
      | Some (Inr processedFiles) \<Rightarrow>
          Some \<lparr>status = 200,
                body = JObj [(''success'', JBool True), (''files'', JArr processedFiles)]\<rparr>
      | Some (Inl e) \<Rightarrow> Some (failure 500 (JStr (error_message e))))"

text \<open>
  \<open>upload.array('files', 10)\<close> runs before the handler: a form with more than ten files
  is refused by multer, and the handler is not called.
\<close>

definition upload_route ::
  "'n storage \<Rightarrow> upload_file list \<Rightarrow> error + 'n response option" where
  "upload_route S files =
     (if length files > 10 then Inl (Failure ''Unexpected field'')
      else Inr (upload S (Some files)))"

section \<open>Summary generation (server.js lines 88-131 and 320-364)\<close>

definition summary_prompt :: "string \<Rightarrow> string" where
  \<open>summary_prompt transcript_text =
     ''Please analyze the following meeting transcript and provide:'' @ template_lines
       [''    1. An executive summary (2-3 paragraphs)'',
        ''    2. A list of action items with assigned owners'',
        ''    '',
        ''    Meeting Transcript:'',
        ''    '' @ transcript_text,
        ''    '',
        ''    Format the response as JSON with the following structure:'',
        ''    {'',
        ''      "summary": "executive summary text",'',
        ''      "actionItems": ['',
        ''        {'',
        ''          "item": "action item description",'',
        ''          "owner": "person responsible",'',
        ''          "timeline": "estimated timeline if mentioned"'',
        ''        }'',
        ''      ]'',
        ''    }'']\<close>

text \<open>
  The argument of \<open>openai.chat.completions.create\<close>, and what the code reads of its
  answer: \<open>message.content\<close> of each choice, in order (\<open>None\<close> is \<open>null\<close>).
\<close>

record chat_request =
  model :: string
  messages :: "(string \<times> string) list"
  response_format :: "string option"

type_synonym chat_completion = "string option list"

definition chat_request_resend :: "string \<Rightarrow> chat_request" where
  "chat_request_resend prompt =
     \<lparr>model = ''gpt-3.5-turbo'',
      messages =
        [(''system'', ''You are a helpful assistant that analyzes meeting transcripts and creates concise summaries and action items. Always respond with valid JSON.''),
         (''user'', prompt)],
      response_format = None\<rparr>"

definition chat_request_nodemailer :: "string \<Rightarrow> chat_request" where
  "chat_request_nodemailer prompt =
     \<lparr>model = ''gpt-4-turbo'',
      messages =
        [(''system'', ''You are a helpful assistant that analyzes meeting transcripts and creates concise summaries and action items.''),
         (''user'', prompt)],
      response_format = Some ''json_object''\<rparr>"

text \<open>\<open>completion.choices[0].message.content\<close>\<close>

definition first_content :: "chat_completion \<Rightarrow> error + string option" where
  "first_content completion =
     (case completion of
        [] \<Rightarrow> Inl (cannot_read ''undefined'' ''message'')
      | content # _ \<Rightarrow> Inr content)"

text \<open>
  The own enumerable properties that an object spread copies (of an object, its
  properties: the first binding of each key). The indices of an array
  or of a string are keys in decimal; a string has one per UTF-16 code unit, so a
  character outside the basic plane gives its two surrogates (each written in the
  generalised UTF-8 form of three bytes).
\<close>

fun decimal :: "nat \<Rightarrow> string" where
  "decimal n =
     (if n < 10 then [''0123456789'' ! n]
      else decimal (n div 10) @ [''0123456789'' ! (n mod 10)])"

definition is_continuation :: "char \<Rightarrow> bool" where
  "is_continuation c = ((of_char c :: nat) div 64 = 2)"

function utf8_chars :: "string \<Rightarrow> string list" where
  "utf8_chars [] = []"
| "utf8_chars (c # cs) =
     (c # takeWhile is_continuation cs) # utf8_chars (dropWhile is_continuation cs)"
  by pat_completeness auto
termination
  by (relation "measure length") (auto simp: length_dropWhile_le less_Suc_eq_le)

definition three_bytes :: "nat \<Rightarrow> string" where
  "three_bytes u =
     [char_of (224 + u div 4096), char_of (128 + (u div 64) mod 64), char_of (128 + u mod 64)]"

definition code_units :: "string \<Rightarrow> string list" where
  "code_units ch =
     (case map of_char ch of
        [b0, b1, b2, b3] \<Rightarrow>
          (let v = (b0 mod 8) * 262144 + (b1 mod 64) * 4096 + (b2 mod 64) * 64 + b3 mod 64 - 65536
           in [three_bytes (55296 + v div 1024), three_bytes (56320 + v mod 1024)])
      | _ \<Rightarrow> [ch])"

definition indexed :: "'a list \<Rightarrow> (string \<times> 'a) list" where
  "indexed xs = zip (map decimal [0..<length xs]) xs"

fun own_properties :: "'n jsval \<Rightarrow> (string \<times> 'n jsval) list" where
  "own_properties (JObj kvs) = AList.clearjunk kvs"
| "own_properties (JArr xs) = indexed xs"
| "own_properties (JStr s) = indexed (map JStr (concat (map code_units (utf8_chars s))))"
| "own_properties v = []"

text \<open>
  \<open>{ success: true, ...result }\<close>: each copied property is set on the new object, which
  replaces the value of a key that is already there (also of \<open>success\<close>) and appends a
  new key. The list is in the order of the assignments; the engine lists the keys that
  are array indices before the others.
\<close>

definition spread_result :: "'n jsval \<Rightarrow> 'n jsval" where
  "spread_result result =
     JObj (fold (\<lambda>(k, v). AList.update k v) (own_properties result) [(''success'', JBool True)])"

text \<open>
  The body of the \<open>try\<close> of \<open>POST /generate-summary\<close>; \<open>mk_request\<close> is the request
  of the variant, \<open>create\<close> the provider and \<open>JSON_parse\<close> the engine's \<open>JSON.parse\<close>,
  which is applied to the text of its argument.
\<close>

definition summary_result ::
  "'n numerics \<Rightarrow> (string \<Rightarrow> chat_request) \<Rightarrow> (chat_request \<Rightarrow> error + chat_completion) \<Rightarrow>
   (string \<Rightarrow> error + 'n jsval) \<Rightarrow> 'n jsval \<Rightarrow> error + 'n jsval" where
  "summary_result N mk_request create JSON_parse req_body =
     then_do (js_destructure ''req.body'' req_body ''transcript'') (\<lambda>transcript.
     then_do (js_toString N transcript) (\<lambda>transcript_text.
     then_do (create (mk_request (summary_prompt transcript_text))) (\<lambda>completion.
     then_do (first_content completion) (\<lambda>content.
     JSON_parse (case content of None \<Rightarrow> ''null'' | Some c \<Rightarrow> c)))))"

definition generate_summary ::
  "'n numerics \<Rightarrow> (string \<Rightarrow> chat_request) \<Rightarrow> (chat_request \<Rightarrow> error + chat_completion) \<Rightarrow>
   (string \<Rightarrow> error + 'n jsval) \<Rightarrow> 'n jsval \<Rightarrow> 'n response" where
  "generate_summary N mk_request create JSON_parse req_body =
     (case summary_result N mk_request create JSON_parse req_body of
        Inr result \<Rightarrow> \<lparr>status = 200, body = spread_result result\<rparr>
      | Inl e \<Rightarrow> failure 500 (JStr (error_message e)))"

section \<open>Dispatch through Resend (server.js lines 19-23 and 134-173)\<close>

record 'n email =
  mail_from :: "'n jsval"
  mail_to :: "'n jsval"
  mail_subject :: string
  mail_html :: string

text \<open>
  \<open>process.env\<close> maps a variable to its text, when it is set. \<open>service key\<close> is the
  client that \<open>new Resend(key)\<close> builds: its \<open>emails.send\<close> answers with an object
  \<open>{data, error}\<close> or throws.
\<close>

definition resend_client ::
  "(string \<Rightarrow> string option) \<Rightarrow> (string \<Rightarrow> 'n email \<Rightarrow> error + 'n jsval) \<Rightarrow>
   ('n email \<Rightarrow> error + 'n jsval) option" where
  "resend_client env service =
     (case env ''RESEND_API_KEY'' of
        None \<Rightarrow> None
      | Some key \<Rightarrow> if key = [] then None else Some (service key))"

definition startup_warnings :: "(string \<Rightarrow> string option) \<Rightarrow> string list" where
  "startup_warnings env =
     (if env ''RESEND_API_KEY'' = None \<or> env ''RESEND_API_KEY'' = Some []
      then [''WARNING: RESEND_API_KEY not found. Email features will not work.'']
      else [])"

definition testEmail :: string where
  "testEmail = ''markgleasonwork@gmail.com''"

definition not_configured :: string where
  "not_configured =
     ''Resend API key not configured. Please add RESEND_API_KEY to environment variables.''"

definition render_request :: "'n numerics \<Rightarrow> 'n jsval \<Rightarrow> error + string" where
  "render_request N req_body =
     then_do (js_destructure ''req.body'' req_body ''recipients'') (\<lambda>recipients.
     then_do (js_get req_body ''summary'') (\<lambda>summary.
     then_do (js_get req_body ''actionItems'') (\<lambda>actionItems.
     formatEmailContent N summary actionItems recipients)))"

definition test_mail :: "string \<Rightarrow> 'n email" where
  "test_mail emailContent =
     \<lparr>mail_from = JStr ''Meeting Transcript Utility <markgleasonwork@gmail.com>'',
      mail_to = JStr testEmail,
      mail_subject = ''Meeting Summary and Action Items'',
      mail_html = emailContent\<rparr>"

text \<open>What follows the call of \<open>resend.emails.send\<close>, given what the call gave.\<close>

definition after_send :: "'n numerics \<Rightarrow> error + 'n jsval \<Rightarrow> error + 'n response" where
  "after_send N sent =
     then_do sent (\<lambda>result.
     then_do (js_destructure ''(intermediate value)'' result ''data'') (\<lambda>data.
     then_do (js_get result ''error'') (\<lambda>error.
       if js_truthy N error then
         then_do (js_get error ''message'') (\<lambda>m. Inr (failure 400 m))
       else
         Inr \<lparr>status = 200,
              body = JObj [(''success'', JBool True),
                           (''message'', JStr (''Email sent to '' @ testEmail @
                              '' with intended recipients listed in the email body'')),
                           (''data'', data)]\<rparr>)))"

text \<open>
  The handler of \<open>POST /send-emails\<close>: the response, and the messages handed to the
  delivery service, in order.
\<close>

definition send_emails ::
  "'n numerics \<Rightarrow> ('n email \<Rightarrow> error + 'n jsval) option \<Rightarrow> 'n jsval \<Rightarrow>
   'n response \<times> 'n email list" where
  "send_emails N resend req_body =
     (case resend of
        None \<Rightarrow> (failure 500 (JStr not_configured), [])
      | Some send \<Rightarrow>
          (case render_request N req_body of
             Inl e \<Rightarrow> (failure 500 (JStr (error_message e)), [])
           | Inr emailContent \<Rightarrow>
               (case after_send N (send (test_mail emailContent)) of
                  Inl e \<Rightarrow> (failure 500 (JStr (error_message e)), [test_mail emailContent])
                | Inr r \<Rightarrow> (r, [test_mail emailContent]))))"

section \<open>Dispatch through nodemailer (server.js lines 367-387)\<close>

text \<open>\<open>for (const recipient of recipients)\<close>: an array gives its elements, a string its characters.\<close>

fun js_iterate :: "'n jsval \<Rightarrow> error + 'n jsval list" where
  "js_iterate (JArr xs) = Inr xs"
| "js_iterate (JStr s) = Inr (map JStr (utf8_chars s))"
| "js_iterate v = Inl (TypeError ''recipients is not iterable'')"

definition recipient_mail :: "(string \<Rightarrow> string option) \<Rightarrow> string \<Rightarrow> 'n jsval \<Rightarrow> 'n email" where
  "recipient_mail env emailContent address =
     \<lparr>mail_from = (case env ''EMAIL_FROM'' of None \<Rightarrow> JUndefined | Some f \<Rightarrow> JStr f),
      mail_to = address,
      mail_subject = ''Meeting Summary and Action Items'',
      mail_html = emailContent\<rparr>"

text \<open>
  The loop over the recipients. \<open>sendMail attempted m\<close> is what \<open>transporter.sendMail(m)\<close>
  gives after the calls \<open>attempted\<close> of this request: \<open>None\<close> when the message was
  accepted, the error when the promise was rejected. The result is the error that ended
  the loop, if any, and every message handed to \<open>sendMail\<close>, in order.
\<close>

fun send_each ::
  "(string \<Rightarrow> string option) \<Rightarrow> ('n email list \<Rightarrow> 'n email \<Rightarrow> error option) \<Rightarrow> string \<Rightarrow>
   'n email list \<Rightarrow> 'n jsval list \<Rightarrow> error option \<times> 'n email list" where
  "send_each env sendMail emailContent attempted [] = (None, attempted)"
| "send_each env sendMail emailContent attempted (recipient # recipients) =
     (case js_get recipient ''email'' of
        Inl e \<Rightarrow> (Some e, attempted)
      | Inr address \<Rightarrow>
          (case sendMail attempted (recipient_mail env emailContent address) of
             Some e \<Rightarrow> (Some e, attempted @ [recipient_mail env emailContent address])
           | None \<Rightarrow>
               send_each env sendMail emailContent
                 (attempted @ [recipient_mail env emailContent address]) recipients))"

definition send_emails_nodemailer ::
  "'n numerics \<Rightarrow> (string \<Rightarrow> string option) \<Rightarrow> ('n email list \<Rightarrow> 'n email \<Rightarrow> error option) \<Rightarrow>
   'n jsval \<Rightarrow> 'n response \<times> 'n email list" where
  "send_emails_nodemailer N env sendMail req_body =
     (case then_do (js_destructure ''req.body'' req_body ''recipients'') (\<lambda>recipients.
           then_do (js_get req_body ''summary'') (\<lambda>summary.
           then_do (js_get req_body ''actionItems'') (\<lambda>actionItems.
           then_do (formatEmailContent_nodemailer N summary actionItems) (\<lambda>emailContent.
           then_do (js_iterate recipients) (\<lambda>rs. Inr (emailContent, rs)))))) of
        Inl e \<Rightarrow> (failure 500 (JStr (error_message e)), [])
      | Inr (emailContent, rs) \<Rightarrow>
          (case send_each env sendMail emailContent [] rs of
             (Some e, attempted) \<Rightarrow> (failure 500 (JStr (error_message e)), attempted)
           | (None, attempted) \<Rightarrow>
               (\<lparr>status = 200,
                 body = JObj [(''success'', JBool True), (''message'', JStr ''Emails sent successfully'')]\<rparr>,
                attempted)))"

section \<open>Input shapes and expected texts\<close>

text \<open>
  The shapes of the data model, as predicates on JSON values, and the texts that the
  specification expects of the renderer for them.
\<close>

definition field :: "'n jsval \<Rightarrow> string \<Rightarrow> 'n jsval" where
  "field v k = (case v of JObj kvs \<Rightarrow> property kvs k | _ \<Rightarrow> JUndefined)"

definition is_string :: "'n jsval \<Rightarrow> bool" where
  "is_string v = (case v of JStr s \<Rightarrow> True | _ \<Rightarrow> False)"

definition is_array :: "'n jsval \<Rightarrow> bool" where
  "is_array v = (case v of JArr xs \<Rightarrow> True | _ \<Rightarrow> False)"

definition raises :: "error + 'a \<Rightarrow> bool" where
  "raises r = (case r of Inl e \<Rightarrow> True | Inr x \<Rightarrow> False)"

text \<open>An action item: a record whose \<open>item\<close>, \<open>owner\<close> and \<open>timeline\<close> are texts or missing.\<close>

definition text_or_missing :: "'n jsval \<Rightarrow> bool" where
  "text_or_missing v = (case v of JUndefined \<Rightarrow> True | JStr s \<Rightarrow> True | _ \<Rightarrow> False)"

definition is_action_item :: "'n jsval \<Rightarrow> bool" where
  "is_action_item v =
     (case v of
        JObj kvs \<Rightarrow> text_or_missing (field v ''item'') \<and> text_or_missing (field v ''owner'')
                    \<and> text_or_missing (field v ''timeline'')
      | _ \<Rightarrow> False)"

text \<open>
  The text of a cell: the field's text, and \<open>undefined\<close> for a missing field; the
  timeline cell reads \<open>Not specified\<close> when the field is missing or empty.
\<close>

definition cell_text :: "'n jsval \<Rightarrow> string" where
  "cell_text v = (case v of JStr s \<Rightarrow> s | _ \<Rightarrow> ''undefined'')"

definition timeline_text :: "'n jsval \<Rightarrow> string" where
  "timeline_text v =
     (case v of JStr s \<Rightarrow> if s = [] then ''Not specified'' else s | _ \<Rightarrow> ''Not specified'')"

text \<open>
  The table row expected for three cell texts: a line feed and an opening \<open>tr\<close>, three
  \<open>td\<close> cells on lines of their own, each holding one text, and the closing \<open>tr\<close>.
\<close>

definition table_row_text :: "string \<Rightarrow> string \<Rightarrow> string \<Rightarrow> string" where
  \<open>table_row_text first_cell second_cell third_cell =
     [CHR 0x0A] @ ''          <tr>''
     @ [CHR 0x0A] @ ''            <td style="padding: 10px; border: 1px solid #ddd;">''
         @ first_cell @ ''</td>''
     @ [CHR 0x0A] @ ''            <td style="padding: 10px; border: 1px solid #ddd;">''
         @ second_cell @ ''</td>''
     @ [CHR 0x0A] @ ''            <td style="padding: 10px; border: 1px solid #ddd;">''
         @ third_cell @ ''</td>''
     @ [CHR 0x0A] @ ''          </tr>''\<close>

definition item_row :: "'n jsval \<Rightarrow> string" where
  "item_row it =
     table_row_text (cell_text (field it ''item'')) (cell_text (field it ''owner''))
       (timeline_text (field it ''timeline''))"

text \<open>
  A recipient: a bare address, or a record with a nonempty text \<open>email\<close>, or a record
  without \<open>email\<close> (which must then print, so it has no property \<open>toString\<close>).
\<close>

definition has_email :: "'n jsval \<Rightarrow> bool" where
  "has_email r = (case field r ''email'' of JStr e \<Rightarrow> e \<noteq> [] | _ \<Rightarrow> False)"

definition is_recipient :: "'n jsval \<Rightarrow> bool" where
  "is_recipient r =
     (case r of
        JStr s \<Rightarrow> True
      | JObj kvs \<Rightarrow> has_email r \<or> (field r ''email'' = JUndefined \<and> map_of kvs ''toString'' = None)
      | _ \<Rightarrow> False)"

definition display_string :: "'n jsval \<Rightarrow> string" where
  "display_string r =
     (case r of
        JStr s \<Rightarrow> s
      | _ \<Rightarrow> (case field r ''email'' of JStr e \<Rightarrow> e | _ \<Rightarrow> ''[object Object]''))"

fun joined :: "string \<Rightarrow> string list \<Rightarrow> string" where
  "joined sep [] = []"
| "joined sep [x] = x"
| "joined sep (x # y # ys) = x @ sep @ joined sep (y # ys)"

definition banner_of :: "'n jsval list \<Rightarrow> string" where
  "banner_of rs =
     (if rs = [] then ''No recipients selected'' else joined '', '' (map display_string rs))"

text \<open>The whole document, given the banner text, the summary markup and the rows.\<close>

definition page :: "string \<Rightarrow> string \<Rightarrow> string \<Rightarrow> string" where
  "page banner_text summary_html rows =
     html_open @ banner_text @ html_after_recipients @ summary_html @ html_after_summary
       @ rows @ html_close"

definition page_nodemailer :: "string \<Rightarrow> string \<Rightarrow> string" where
  "page_nodemailer summary_html rows =
     html_open_nodemailer @ summary_html @ html_after_summary @ rows @ html_close"

text \<open>
  File intake: the kind of a file by the extension of its name, whether the stored copy
  of a file of either kind can be read, and the entry expected for it (none for a file
  of another extension).
\<close>

datatype kind = Transcript | ContactList

definition kind_of :: "string \<Rightarrow> kind option" where
  "kind_of name =
     (if toLowerCase (path_extname name) = ''.txt'' then Some Transcript
      else if toLowerCase (path_extname name) = ''.csv'' then Some ContactList
      else None)"

definition stored :: "'n storage \<Rightarrow> upload_file \<Rightarrow> bool" where
  "stored S f =
     (case kind_of (originalname f) of
        Some Transcript \<Rightarrow> \<not> raises (readFile S (path f))
      | Some ContactList \<Rightarrow> snd (csv_rows S (path f)) = Ended
      | None \<Rightarrow> True)"

definition classified :: "'n storage \<Rightarrow> upload_file \<Rightarrow> 'n jsval list" where
  "classified S f =
     (case kind_of (originalname f) of
        Some Transcript \<Rightarrow>
          (case readFile S (path f) of
             Inr content \<Rightarrow>
               [JObj [(''name'', JStr (originalname f)), (''type'', JStr ''transcript''),
                      (''content'', JStr content)]]
           | Inl e \<Rightarrow> [])
      | Some ContactList \<Rightarrow>
          [JObj [(''name'', JStr (originalname f)), (''type'', JStr ''contacts''),
                 (''content'', JArr (fst (csv_rows S (path f))))]]
      | None \<Rightarrow> [])"

text \<open>
  Summary generation: a failure response, and a success response that carries a
  nonempty text \<open>summary\<close> and an array \<open>actionItems\<close>.
\<close>

definition is_failure_response :: "'n response \<Rightarrow> bool" where
  "is_failure_response r =
     (status r \<noteq> 200 \<and> field (body r) ''success'' = JBool False
      \<and> is_string (field (body r) ''error''))"

definition is_summary_response :: "'n response \<Rightarrow> bool" where
  "is_summary_response r =
     (field (body r) ''success'' = JBool True
      \<and> (case field (body r) ''summary'' of JStr s \<Rightarrow> s \<noteq> [] | _ \<Rightarrow> False)
      \<and> is_array (field (body r) ''actionItems''))"

text \<open>
  Dispatch: the delivery service answered with an object whose \<open>error\<close> is not set; a
  recipient that is neither \<open>undefined\<close> nor \<open>null\<close>; the messages of the direct mode,
  one per recipient, each addressed to the recipient's \<open>email\<close>; and how many of a list
  of messages \<open>sendMail\<close> accepts before it rejects one.
\<close>

definition delivered :: "'n numerics \<Rightarrow> error + 'n jsval \<Rightarrow> bool" where
  "delivered N sent =
     (case sent of Inr (JObj kvs) \<Rightarrow> \<not> js_truthy N (property kvs ''error'') | _ \<Rightarrow> False)"

definition is_present :: "'n jsval \<Rightarrow> bool" where
  "is_present r = (r \<noteq> JUndefined \<and> r \<noteq> JNull)"

definition addressed ::
  "(string \<Rightarrow> string option) \<Rightarrow> string \<Rightarrow> 'n jsval list \<Rightarrow> 'n email list" where
  "addressed env emailContent rs =
     map (\<lambda>r. recipient_mail env emailContent (field r ''email'')) rs"

fun accepted_count ::
  "('n email list \<Rightarrow> 'n email \<Rightarrow> error option) \<Rightarrow> 'n email list \<Rightarrow> 'n email list \<Rightarrow> nat" where
  "accepted_count sendMail attempted [] = 0"
| "accepted_count sendMail attempted (m # ms) =
     (case sendMail attempted m of
        None \<Rightarrow> Suc (accepted_count sendMail (attempted @ [m]) ms)
      | Some e \<Rightarrow> 0)"

section \<open>Sample inputs\<close>

text \<open>
  The engine of the examples: its only number is zero, and the strings it reads as a
  positive number are the runs of decimal digits that are not all zero (the examples
  compare no other string with zero).
\<close>

definition sample_numerics :: "unit numerics" where
  "sample_numerics =
     \<lparr>num_text = (\<lambda>n. ''0''),
      num_truthy = (\<lambda>n. False),
      num_positive = (\<lambda>n. False),
      str_positive = (\<lambda>s. s \<noteq> [] \<and> list_all (\<lambda>c. c \<in> set ''0123456789'') s
                             \<and> \<not> list_all (\<lambda>c. c = CHR ''0'') s)\<rparr>"

definition sample_items :: "unit jsval list" where
  "sample_items =
     [JObj [(''item'', JStr ''Ship the report''), (''owner'', JStr ''Ann''), (''timeline'', JStr ''Friday'')],
      JObj [(''item'', JStr ''Book a room''), (''owner'', JStr ''Raj'')],
      JObj [(''timeline'', JStr ''Q3'')]]"

definition sample_recipients :: "unit jsval list" where
  "sample_recipients =
     [JStr ''ann@example.com'',
      JObj [(''name'', JStr ''Raj''), (''email'', JStr ''raj@example.com'')],
      JObj [(''name'', JStr ''Li'')]]"

definition sample_contacts :: "unit jsval list" where
  "sample_contacts =
     [JObj [(''name'', JStr ''Ann''), (''email'', JStr ''ann@example.com'')],
      JObj [(''name'', JStr ''Raj''), (''email'', JStr ''raj@example.com'')],
      JObj [(''name'', JStr ''Li''), (''email'', JStr ''li@example.com'')]]"

definition sample_request :: "unit jsval" where
  "sample_request =
     JObj [(''recipients'', JArr sample_recipients), (''summary'', JStr ''Done.''),
           (''actionItems'', JArr sample_items)]"

definition sample_bare_request :: "unit jsval" where
  "sample_bare_request =
     JObj [(''recipients'', JArr [JStr ''ann@example.com'']), (''summary'', JStr ''Done.''),
           (''actionItems'', JArr [])]"

definition sample_contacts_request :: "unit jsval" where
  "sample_contacts_request =
     JObj [(''recipients'', JArr sample_contacts), (''summary'', JStr ''Done.''),
           (''actionItems'', JArr sample_items)]"

text \<open>A store with one transcript and one contact list, and a batch of three uploads.\<close>

definition sample_storage :: "unit storage" where
  "sample_storage =
     \<lparr>readFile = (\<lambda>p. if p = ''uploads/1-notes.TXT'' then Inr ''Ann: hello''
                       else Inl (Failure ''ENOENT'')),
      csv_rows = (\<lambda>p. if p = ''uploads/2-team.csv''
                       then ([JObj [(''name'', JStr ''Alice''), (''email'', JStr ''alice@example.com'')]],
                             Ended)
                       else ([], Read_failed ''ENOENT''))\<rparr>"

definition sample_files :: "upload_file list" where
  "sample_files =
     [\<lparr>originalname = ''notes.TXT'', path = ''uploads/1-notes.TXT''\<rparr>,
      \<lparr>originalname = ''team.csv'', path = ''uploads/2-team.csv''\<rparr>,
      \<lparr>originalname = ''logo.png'', path = ''uploads/3-logo.png''\<rparr>]"

text \<open>
  A provider that answers every request with one choice of a given text, and the value
  of \<open>JSON.parse\<close> on the texts of the examples.
\<close>

definition reply_with :: "string \<Rightarrow> chat_request \<Rightarrow> error + chat_completion" where
  "reply_with text request = Inr [Some text]"

definition sample_parse :: "string \<Rightarrow> error + unit jsval" where
  \<open>sample_parse text =
     (if text = ''{}'' then Inr (JObj [])
      else if text = ''{"summary":"All agreed.","actionItems":[]}''
        then Inr (JObj [(''summary'', JStr ''All agreed.''), (''actionItems'', JArr [])])
      else Inl (SyntaxError ''Unexpected token''))\<close>

definition provider_down :: "chat_request \<Rightarrow> error + chat_completion" where
  "provider_down request = Inl (Failure ''429 Too Many Requests'')"

definition sample_transcript :: "unit jsval" where
  "sample_transcript = JObj [(''transcript'', JStr ''Ann: hello'')]"

text \<open>
  A delivery service that accepts every message, a transporter that rejects the
  messages to one address, and an environment without the Resend key.
\<close>

definition sample_service :: "string \<Rightarrow> unit email \<Rightarrow> error + unit jsval" where
  "sample_service key m =
     Inr (JObj [(''data'', JObj [(''id'', JStr ''re_1'')]), (''error'', JNull)])"

definition sample_sendMail :: "unit email list \<Rightarrow> unit email \<Rightarrow> error option" where
  "sample_sendMail attempted m =
     (if mail_to m = JStr ''raj@example.com'' then Some (Failure ''550 mailbox unavailable'')
      else None)"

definition sample_env :: "string \<Rightarrow> string option" where
  "sample_env = [''EMAIL_FROM'' \<mapsto> ''minutes@example.com'']"

section \<open>Properties of the renderer\<close>

lemma then_do_Inr [simp]: "then_do (Inr x) f = f x"
  by (simp add: then_do_def)

lemma then_do_Inl [simp]: "then_do (Inl e) f = Inl e"
  by (simp add: then_do_def)

lemma field_JObj [simp]: "field (JObj kvs) k = property kvs k"
  by (simp add: field_def)

lemma raises_then_do: "raises m \<or> (\<forall>x. raises (f x)) \<Longrightarrow> raises (then_do m f)"
  by (cases m) (auto simp: raises_def)

lemma field_object:
  "field req_body k = v \<Longrightarrow> v \<noteq> JUndefined \<Longrightarrow> \<exists>kvs. req_body = JObj kvs"
  by (cases req_body) (simp_all add: field_def)

lemma js_get_present: "is_present r \<Longrightarrow> js_get r k = Inr (field r k)"
  by (cases r) (simp_all add: is_present_def field_def)

subsection \<open>Rows\<close>

lemma row_html_text: "row_html a b c = table_row_text a b c"
  by (simp add: row_html_def table_row_text_def template_lines_def nl_def)

lemma cell_toString:
  "text_or_missing v \<Longrightarrow> js_toString N v = Inr (cell_text v)"
  by (cases v) (simp_all add: text_or_missing_def cell_text_def)

lemma timeline_toString:
  "text_or_missing v \<Longrightarrow>
   js_toString N (if js_truthy N v then v else JStr ''Not specified'') = Inr (timeline_text v)"
  by (cases v) (simp_all add: text_or_missing_def timeline_text_def)

lemma action_row_item:
  assumes "is_action_item it"
  shows "action_row N it = Inr (item_row it)"
proof -
  from assms obtain kvs where it: "it = JObj kvs"
    by (cases it) (simp_all add: is_action_item_def)
  from assms it have t: "text_or_missing (field it ''item'')" "text_or_missing (field it ''owner'')"
    "text_or_missing (field it ''timeline'')"
    by (simp_all add: is_action_item_def)
  have g: "\<And>k. js_get it k = Inr (field it k)"
    unfolding it by simp
  show ?thesis
    unfolding action_row_def item_row_def
    by (simp only: g then_do_Inr cell_toString [OF t(1)] cell_toString [OF t(2)]
        timeline_toString [OF t(3)] row_html_text)
qed

lemma append_rows_items:
  "list_all is_action_item items \<Longrightarrow>
   append_rows N html items = Inr (html @ concat (map item_row items))"
  by (induction items arbitrary: html) (simp_all add: action_row_item)

lemma summary_replace_raises: "\<not> is_string v \<Longrightarrow> raises (summary_replace v)"
  by (cases v) (simp_all add: is_string_def raises_def)

lemma actionItems_forEach_raises: "\<not> is_array v \<Longrightarrow> raises (actionItems_forEach N html v)"
  by (cases v) (simp_all add: is_array_def raises_def)

subsection \<open>The banner\<close>

lemma recipient_display_text:
  assumes "is_recipient r"
  shows "\<exists>v. recipient_display N r = Inr v \<and> v \<noteq> JUndefined \<and> v \<noteq> JNull
           \<and> js_toString N v = Inr (display_string r)"
proof (cases r)
  case (JStr s)
  then show ?thesis by (simp add: recipient_display_def display_string_def)
next
  case (JObj kvs)
  show ?thesis
  proof (cases "has_email r")
    case True
    then obtain e where e: "field r ''email'' = JStr e" "e \<noteq> []"
      by (auto simp: has_email_def split: jsval.splits)
    then show ?thesis
      using JObj by (simp add: recipient_display_def display_string_def)
  next
    case False
    with assms JObj have "field r ''email'' = JUndefined" "map_of kvs ''toString'' = None"
      by (simp_all add: is_recipient_def)
    then show ?thesis
      using JObj by (simp add: recipient_display_def display_string_def)
  qed
qed (use assms in \<open>simp_all add: is_recipient_def\<close>)

lemma js_join_texts:
  "list_all (\<lambda>v. v \<noteq> JUndefined \<and> v \<noteq> JNull) vs \<Longrightarrow>
   list_all2 (\<lambda>v t. js_toString N v = Inr t) vs ts \<Longrightarrow>
   js_join N sep vs = Inr (joined sep ts)"
proof (induction sep ts arbitrary: vs rule: joined.induct)
  case (1 sep)
  then show ?case by simp
next
  case (2 sep x)
  then show ?case by (auto simp: list_all2_Cons2)
next
  case (3 sep x y ys)
  from "3.prems"(2) obtain v vs' where vs: "vs = v # vs'" "js_toString N v = Inr x"
    "list_all2 (\<lambda>v t. js_toString N v = Inr t) vs' (y # ys)"
    by (auto simp: list_all2_Cons2)
  then have ne: "vs' \<noteq> []" by auto
  from "3.prems"(1) vs have "js_join N sep vs' = Inr (joined sep (y # ys))"
    by (intro "3.IH") simp_all
  with vs ne "3.prems"(1) show ?case by simp
qed

lemma js_map_recipients:
  "list_all is_recipient rs \<Longrightarrow>
   \<exists>vs. js_map (recipient_display N) rs = Inr vs
        \<and> list_all (\<lambda>v. v \<noteq> JUndefined \<and> v \<noteq> JNull) vs
        \<and> list_all2 (\<lambda>v t. js_toString N v = Inr t) vs (map display_string rs)"
proof (induction rs)
  case Nil
  then show ?case by simp
next
  case (Cons r rs)
  then obtain vs where vs: "js_map (recipient_display N) rs = Inr vs"
    "list_all (\<lambda>v. v \<noteq> JUndefined \<and> v \<noteq> JNull) vs"
    "list_all2 (\<lambda>v t. js_toString N v = Inr t) vs (map display_string rs)"
    by auto
  from Cons.prems obtain v where v: "recipient_display N r = Inr v" "v \<noteq> JUndefined" "v \<noteq> JNull"
    "js_toString N v = Inr (display_string r)"
    using recipient_display_text [of r N] by auto
  from v vs show ?case by simp
qed

lemma recipientsList_recipients:
  assumes "list_all is_recipient rs"
  shows "recipientsList N (JArr rs) = Inr (banner_of rs)"
proof (cases "rs = []")
  case True
  then show ?thesis by (simp add: recipientsList_def banner_of_def)
next
  case False
  from js_map_recipients [OF assms, of N] obtain vs where
    vs: "js_map (recipient_display N) rs = Inr vs"
      "list_all (\<lambda>v. v \<noteq> JUndefined \<and> v \<noteq> JNull) vs"
      "list_all2 (\<lambda>v t. js_toString N v = Inr t) vs (map display_string rs)"
    by blast
  have "js_join N '', '' vs = Inr (joined '', '' (map display_string rs))"
    by (rule js_join_texts [OF vs(2) vs(3)])
  with vs(1) False show ?thesis by (simp add: recipientsList_def banner_of_def)
qed

subsection \<open>The document\<close>

lemma formatEmailContent_page:
  assumes "list_all is_recipient rs" and "list_all is_action_item items"
  shows "formatEmailContent N (JStr s) (JArr items) (JArr rs) =
           Inr (page (banner_of rs) (replace_newlines s) (concat (map item_row items)))"
  using assms
  by (simp add: formatEmailContent_def page_def append_rows_items recipientsList_recipients)

lemma formatEmailContent_nodemailer_page:
  assumes "list_all is_action_item items"
  shows "formatEmailContent_nodemailer N (JStr s) (JArr items) =
           Inr (page_nodemailer (replace_newlines s) (concat (map item_row items)))"
  using assms
  by (simp add: formatEmailContent_nodemailer_def page_nodemailer_def append_rows_items)

lemma sample_items_ok: "list_all is_action_item sample_items"
  by (simp add: sample_items_def is_action_item_def text_or_missing_def property_def)

lemma sample_recipients_ok: "list_all is_recipient sample_recipients"
  by (simp add: sample_recipients_def is_recipient_def has_email_def property_def)

lemma sample_rows:
  "concat (map item_row sample_items) =
     row_html ''Ship the report'' ''Ann'' ''Friday''
     @ row_html ''Book a room'' ''Raj'' ''Not specified''
     @ row_html ''undefined'' ''undefined'' ''Q3''"
  by (simp add: sample_items_def item_row_def cell_text_def timeline_text_def property_def
      row_html_text)

lemma sample_banner:
  "banner_of sample_recipients = ''ann@example.com, raj@example.com, [object Object]''"
  by (simp add: banner_of_def sample_recipients_def display_string_def property_def)

lemma sample_summary: "replace_newlines ''Done.'' = ''Done.''"
  by (simp add: replace_newlines_def)

text \<open>
  C4. For a list of action items the renderer emits one table row per item, in the
  order of the list, in both variants: the rows of the document are the expected row
  texts of the items, one after the other. The row of an item is a \<open>tr\<close> with three
  \<open>td\<close> cells holding the texts of \<open>item\<close>, \<open>owner\<close> and \<open>timeline\<close>; in the row
  of an item without \<open>timeline\<close> the third cell reads \<open>Not specified\<close>; in the row of
  an item without \<open>owner\<close> or without \<open>item\<close> that cell reads \<open>undefined\<close>, and no
  exception is raised.
\<close>

theorem one_row_per_action_item:
  assumes "list_all is_action_item items"
  shows "formatEmailContent_nodemailer N (JStr s) (JArr items) =
           Inr (html_open_nodemailer @ replace_newlines s @ html_after_summary
                  @ concat (map (\<lambda>it. table_row_text (cell_text (field it ''item''))
                                          (cell_text (field it ''owner''))
                                          (timeline_text (field it ''timeline''))) items)
                  @ html_close)
       \<and> (list_all is_recipient rs \<longrightarrow>
            formatEmailContent N (JStr s) (JArr items) (JArr rs) =
              Inr (html_open @ banner_of rs @ html_after_recipients @ replace_newlines s
                     @ html_after_summary
                     @ concat (map (\<lambda>it. table_row_text (cell_text (field it ''item''))
                                             (cell_text (field it ''owner''))
                                             (timeline_text (field it ''timeline''))) items)
                     @ html_close))
       \<and> (\<forall>it \<in> set items.
            action_row N it =
              Inr (table_row_text (cell_text (field it ''item'')) (cell_text (field it ''owner''))
                     (timeline_text (field it ''timeline'')))
          \<and> (field it ''timeline'' = JUndefined \<longrightarrow>
               action_row N it =
                 Inr (table_row_text (cell_text (field it ''item'')) (cell_text (field it ''owner''))
                        ''Not specified''))
          \<and> (field it ''owner'' = JUndefined \<longrightarrow>
               action_row N it =
                 Inr (table_row_text (cell_text (field it ''item'')) ''undefined''
                        (timeline_text (field it ''timeline''))))
          \<and> (field it ''item'' = JUndefined \<longrightarrow>
               action_row N it =
                 Inr (table_row_text ''undefined'' (cell_text (field it ''owner''))
                        (timeline_text (field it ''timeline'')))))"
proof (intro conjI impI ballI)
  have rows: "map (\<lambda>it. table_row_text (cell_text (field it ''item'')) (cell_text (field it ''owner''))
      (timeline_text (field it ''timeline''))) items = map item_row items"
    by (simp add: item_row_def)
  show "formatEmailContent_nodemailer N (JStr s) (JArr items) =
           Inr (html_open_nodemailer @ replace_newlines s @ html_after_summary
                  @ concat (map (\<lambda>it. table_row_text (cell_text (field it ''item''))
                                          (cell_text (field it ''owner''))
                                          (timeline_text (field it ''timeline''))) items)
                  @ html_close)"
    unfolding rows
    using formatEmailContent_nodemailer_page [OF assms] by (simp add: page_nodemailer_def)
  show "formatEmailContent N (JStr s) (JArr items) (JArr rs) =
              Inr (html_open @ banner_of rs @ html_after_recipients @ replace_newlines s
                     @ html_after_summary
                     @ concat (map (\<lambda>it. table_row_text (cell_text (field it ''item''))
                                             (cell_text (field it ''owner''))
                                             (timeline_text (field it ''timeline''))) items)
                     @ html_close)"
    if "list_all is_recipient rs"
    unfolding rows
    using formatEmailContent_page [OF that assms] by (simp add: page_def)
next
  fix it assume "it \<in> set items"
  with assms have row: "action_row N it =
      Inr (table_row_text (cell_text (field it ''item'')) (cell_text (field it ''owner''))
             (timeline_text (field it ''timeline'')))"
    by (simp add: list_all_iff action_row_item item_row_def)
  show "action_row N it =
      Inr (table_row_text (cell_text (field it ''item'')) (cell_text (field it ''owner''))
             (timeline_text (field it ''timeline'')))"
    by (rule row)
  show "action_row N it =
      Inr (table_row_text (cell_text (field it ''item'')) (cell_text (field it ''owner''))
             ''Not specified'')"
    if "field it ''timeline'' = JUndefined"
    using that row by (simp add: timeline_text_def)
  show "action_row N it =
      Inr (table_row_text (cell_text (field it ''item'')) ''undefined''
             (timeline_text (field it ''timeline'')))"
    if "field it ''owner'' = JUndefined"
    using that row by (simp add: cell_text_def)
  show "action_row N it =
      Inr (table_row_text ''undefined'' (cell_text (field it ''owner''))
             (timeline_text (field it ''timeline'')))"
    if "field it ''item'' = JUndefined"
    using that row by (simp add: cell_text_def)
qed

theorem one_row_per_action_item_witness:
  \<open>list_all is_action_item sample_items
   \<and> formatEmailContent_nodemailer sample_numerics (JStr ''Done.'') (JArr sample_items) =
       Inr ([CHR 0x0A] @ ''    <html>''
          @ [CHR 0x0A] @ ''      <body style="font-family: Arial, sans-serif; line-height: 1.6; color: #333;">''
          @ [CHR 0x0A] @ ''        <h2>Meeting Summary</h2>''
          @ [CHR 0x0A] @ ''        <div style="background-color: #f4f4f4; padding: 15px; border-radius: 5px;">''
          @ [CHR 0x0A] @ ''          Done.''
          @ [CHR 0x0A] @ ''        </div>''
          @ [CHR 0x0A] @ ''        ''
          @ [CHR 0x0A] @ ''        <h2>Action Items</h2>''
          @ [CHR 0x0A] @ ''        <table style="width: 100%; border-collapse: collapse; margin-top: 10px;">''
          @ [CHR 0x0A] @ ''          <tr style="background-color: #e9e9e9;">''
          @ [CHR 0x0A] @ ''            <th style="padding: 10px; text-align: left; border: 1px solid #ddd;">Action Item</th>''
          @ [CHR 0x0A] @ ''            <th style="padding: 10px; text-align: left; border: 1px solid #ddd;">Owner</th>''
          @ [CHR 0x0A] @ ''            <th style="padding: 10px; text-align: left; border: 1px solid #ddd;">Timeline</th>''
          @ [CHR 0x0A] @ ''          </tr>''
          @ [CHR 0x0A] @ ''          <tr>''
          @ [CHR 0x0A] @ ''            <td style="padding: 10px; border: 1px solid #ddd;">Ship the report</td>''
          @ [CHR 0x0A] @ ''            <td style="padding: 10px; border: 1px solid #ddd;">Ann</td>''
          @ [CHR 0x0A] @ ''            <td style="padding: 10px; border: 1px solid #ddd;">Friday</td>''
          @ [CHR 0x0A] @ ''          </tr>''
          @ [CHR 0x0A] @ ''          <tr>''
          @ [CHR 0x0A] @ ''            <td style="padding: 10px; border: 1px solid #ddd;">Book a room</td>''
          @ [CHR 0x0A] @ ''            <td style="padding: 10px; border: 1px solid #ddd;">Raj</td>''
          @ [CHR 0x0A] @ ''            <td style="padding: 10px; border: 1px solid #ddd;">Not specified</td>''
          @ [CHR 0x0A] @ ''          </tr>''
          @ [CHR 0x0A] @ ''          <tr>''
          @ [CHR 0x0A] @ ''            <td style="padding: 10px; border: 1px solid #ddd;">undefined</td>''
          @ [CHR 0x0A] @ ''            <td style="padding: 10px; border: 1px solid #ddd;">undefined</td>''
          @ [CHR 0x0A] @ ''            <td style="padding: 10px; border: 1px solid #ddd;">Q3</td>''
          @ [CHR 0x0A] @ ''          </tr>''
          @ [CHR 0x0A] @ ''        </table>''
          @ [CHR 0x0A] @ ''      </body>''
          @ [CHR 0x0A] @ ''    </html>'')
   \<and> action_row sample_numerics (JObj [(''item'', JStr ''Book a room''), (''owner'', JStr ''Raj'')]) =
       Inr ([CHR 0x0A] @ ''          <tr>''
          @ [CHR 0x0A] @ ''            <td style="padding: 10px; border: 1px solid #ddd;">Book a room</td>''
          @ [CHR 0x0A] @ ''            <td style="padding: 10px; border: 1px solid #ddd;">Raj</td>''
          @ [CHR 0x0A] @ ''            <td style="padding: 10px; border: 1px solid #ddd;">Not specified</td>''
          @ [CHR 0x0A] @ ''          </tr>'')\<close>
proof -
  have rows: "map (\<lambda>it. table_row_text (cell_text (field it ''item'')) (cell_text (field it ''owner''))
      (timeline_text (field it ''timeline''))) sample_items =
      [table_row_text ''Ship the report'' ''Ann'' ''Friday'',
       table_row_text ''Book a room'' ''Raj'' ''Not specified'',
       table_row_text ''undefined'' ''undefined'' ''Q3'']"
    by (simp add: sample_items_def cell_text_def timeline_text_def property_def)
  have second: "JObj [(''item'', JStr ''Book a room''), (''owner'', JStr ''Raj'')] \<in> set sample_items"
    by (simp add: sample_items_def)
  note t = one_row_per_action_item [OF sample_items_ok, of sample_numerics "''Done.''" "[]"]
  from t [THEN conjunct1] have doc: "formatEmailContent_nodemailer sample_numerics (JStr ''Done.'')
      (JArr sample_items) =
      Inr (html_open_nodemailer @ ''Done.'' @ html_after_summary
             @ table_row_text ''Ship the report'' ''Ann'' ''Friday''
             @ table_row_text ''Book a room'' ''Raj'' ''Not specified''
             @ table_row_text ''undefined'' ''undefined'' ''Q3''
             @ html_close)"
    unfolding rows sample_summary by simp
  from t [THEN conjunct2, THEN conjunct2, rule_format, OF second]
  have row: "action_row sample_numerics (JObj [(''item'', JStr ''Book a room''), (''owner'', JStr ''Raj'')])
      = Inr (table_row_text ''Book a room'' ''Raj'' ''Not specified'')"
    by (simp add: cell_text_def timeline_text_def property_def)
  show ?thesis
    unfolding doc row
    by (simp add: sample_items_ok html_open_nodemailer_def html_after_summary_def html_close_def
        table_row_text_def template_lines_def nl_def)
qed

text \<open>
  C6. For an empty recipient list the banner of intended recipients reads
  \<open>No recipients selected\<close>; for a nonempty list it is the display texts of the
  recipients joined with a comma and a space. The banner text stands in the document
  right after the opening that ends with \<open>Intended Recipients:\<close>. An omitted list is
  rendered as the empty one.
\<close>

theorem banner_of_recipients:
  "recipientsList N (JArr []) = Inr ''No recipients selected''
   \<and> (list_all is_recipient rs \<and> rs \<noteq> [] \<longrightarrow>
        recipientsList N (JArr rs) = Inr (joined '', '' (map display_string rs)))
   \<and> (list_all is_recipient rs \<and> list_all is_action_item items \<longrightarrow>
        formatEmailContent N (JStr s) (JArr items) (JArr rs) =
          Inr (html_open @ banner_of rs @ html_after_recipients @ replace_newlines s
                 @ html_after_summary @ concat (map item_row items) @ html_close))
   \<and> formatEmailContent N summary actionItems JUndefined
        = formatEmailContent N summary actionItems (JArr [])"
proof (intro conjI impI)
  show "recipientsList N (JArr []) = Inr ''No recipients selected''"
    by (simp add: recipientsList_def)
next
  assume "list_all is_recipient rs \<and> rs \<noteq> []"
  then show "recipientsList N (JArr rs) = Inr (joined '', '' (map display_string rs))"
    by (simp add: recipientsList_recipients banner_of_def)
next
  assume "list_all is_recipient rs \<and> list_all is_action_item items"
  then show "formatEmailContent N (JStr s) (JArr items) (JArr rs) =
          Inr (html_open @ banner_of rs @ html_after_recipients @ replace_newlines s
                 @ html_after_summary @ concat (map item_row items) @ html_close)"
    by (simp add: formatEmailContent_page page_def)
next
  show "formatEmailContent N summary actionItems JUndefined
      = formatEmailContent N summary actionItems (JArr [])"
    by (simp add: formatEmailContent_def)
qed

theorem banner_of_recipients_witness:
  "list_all is_recipient sample_recipients \<and> sample_recipients \<noteq> []
   \<and> list_all is_action_item sample_items
   \<and> recipientsList sample_numerics (JArr sample_recipients) =
        Inr ''ann@example.com, raj@example.com, [object Object]''
   \<and> formatEmailContent sample_numerics (JStr ''Done.'') (JArr sample_items) (JArr sample_recipients) =
        Inr (html_open @ ''ann@example.com, raj@example.com, [object Object]'' @ html_after_recipients
               @ ''Done.'' @ html_after_summary
               @ (row_html ''Ship the report'' ''Ann'' ''Friday''
                  @ row_html ''Book a room'' ''Raj'' ''Not specified''
                  @ row_html ''undefined'' ''undefined'' ''Q3'')
               @ html_close)
   \<and> formatEmailContent sample_numerics (JStr ''Done.'') (JArr sample_items) JUndefined =
        formatEmailContent sample_numerics (JStr ''Done.'') (JArr sample_items) (JArr [])"
proof -
  have ne: "sample_recipients \<noteq> []"
    by (simp add: sample_recipients_def)
  have j: "joined '', '' (map display_string sample_recipients)
      = ''ann@example.com, raj@example.com, [object Object]''"
    using sample_banner ne by (simp add: banner_of_def)
  from banner_of_recipients [of sample_numerics sample_recipients sample_items "''Done.''"
      "JStr ''Done.''" "JArr sample_items"]
  show ?thesis
    using sample_recipients_ok sample_items_ok ne
    unfolding sample_banner sample_rows sample_summary j by blast
qed

text \<open>
  C10. The renderer is not total: when the summary is not a string, or the action items
  are absent or not an array, it raises instead of returning a document, in both
  variants. The fallbacks are the two others: an omitted recipient list is rendered as
  the empty list (Resend variant), and the timeline cell of an item without
  \<open>timeline\<close> reads \<open>Not specified\<close>.
\<close>

theorem renderer_not_total:
  "(\<not> is_string summary \<or> \<not> is_array actionItems \<longrightarrow>
      raises (formatEmailContent N summary actionItems recipients)
      \<and> raises (formatEmailContent_nodemailer N summary actionItems))
   \<and> formatEmailContent N summary actionItems JUndefined
        = formatEmailContent N summary actionItems (JArr [])
   \<and> (is_action_item it \<and> field it ''timeline'' = JUndefined \<longrightarrow>
        action_row N it =
          Inr (row_html (cell_text (field it ''item'')) (cell_text (field it ''owner''))
                 ''Not specified''))"
proof (intro conjI impI)
  assume a: "\<not> is_string summary \<or> \<not> is_array actionItems"
  have inner: "raises (then_do (summary_replace summary) (\<lambda>sm.
      then_do (actionItems_forEach N (pre sm) actionItems) (\<lambda>html. Inr (html @ html_close))))"
    for pre
  proof (cases "is_string summary")
    case False
    then show ?thesis by (intro raises_then_do disjI1 summary_replace_raises)
  next
    case True
    with a have "\<not> is_array actionItems" by simp
    then show ?thesis
      by (intro raises_then_do disjI2 allI disjI1 actionItems_forEach_raises)
  qed
  show "raises (formatEmailContent N summary actionItems recipients)"
    unfolding formatEmailContent_def
    by (intro raises_then_do disjI2 allI inner)
  show "raises (formatEmailContent_nodemailer N summary actionItems)"
    unfolding formatEmailContent_nodemailer_def by (rule inner)
next
  show "formatEmailContent N summary actionItems JUndefined
      = formatEmailContent N summary actionItems (JArr [])"
    by (simp add: formatEmailContent_def)
next
  assume "is_action_item it \<and> field it ''timeline'' = JUndefined"
  then show "action_row N it =
      Inr (row_html (cell_text (field it ''item'')) (cell_text (field it ''owner'')) ''Not specified'')"
    by (simp add: action_row_item item_row_def timeline_text_def row_html_text)
qed

theorem renderer_not_total_witness:
  "\<not> is_string (JUndefined :: unit jsval)
   \<and> raises (formatEmailContent sample_numerics JUndefined (JArr []) (JArr []))
   \<and> raises (formatEmailContent_nodemailer sample_numerics JUndefined (JArr []))
   \<and> \<not> is_array (JUndefined :: unit jsval)
   \<and> raises (formatEmailContent sample_numerics (JStr ''Done.'') JUndefined (JArr []))
   \<and> raises (formatEmailContent_nodemailer sample_numerics (JStr ''Done.'') JUndefined)
   \<and> is_action_item (JObj [(''item'', JStr ''Book a room''), (''owner'', JStr ''Raj'')] :: unit jsval)
   \<and> action_row sample_numerics (JObj [(''item'', JStr ''Book a room''), (''owner'', JStr ''Raj'')])
        = Inr (row_html ''Book a room'' ''Raj'' ''Not specified'')"
  using renderer_not_total [of JUndefined "JArr []" sample_numerics "JArr []"]
    renderer_not_total [of "JStr ''Done.''" JUndefined sample_numerics "JArr []"
      "JObj [(''item'', JStr ''Book a room''), (''owner'', JStr ''Raj'')]"]
  by (simp add: is_string_def is_array_def is_action_item_def text_or_missing_def property_def
      cell_text_def)

section \<open>Properties of file intake\<close>

lemma path_extname_plain:
  assumes stem: "stem \<noteq> []" "last stem \<noteq> CHR ''/''"
    and ext: "ext \<noteq> []" "CHR ''.'' \<notin> set ext" "CHR ''/'' \<notin> set ext"
  shows "path_extname (stem @ ''.'' @ ext) = ''.'' @ ext"
proof -
  define t where "t = rev (takeWhile (\<lambda>c. c \<noteq> CHR ''/'') (rev stem))"
  from stem have t_ne: "t \<noteq> []"
    by (cases stem rule: rev_cases) (simp_all add: t_def)
  from ext have hd: "hd (rev ext) \<noteq> CHR ''/''"
    by (cases ext rule: rev_cases) auto
  have drop: "dropWhile (\<lambda>c. c = CHR ''/'') (rev (stem @ ''.'' @ ext)) = rev ext @ CHR ''.'' # rev stem"
    using ext hd by (cases "rev ext") simp_all
  have "takeWhile (\<lambda>c. c \<noteq> CHR ''/'') (rev ext @ CHR ''.'' # rev stem)
      = rev ext @ CHR ''.'' # takeWhile (\<lambda>c. c \<noteq> CHR ''/'') (rev stem)"
    by (subst takeWhile_append2) (use ext in auto)
  then have b: "last_component (stem @ ''.'' @ ext) = t @ ''.'' @ ext"
    unfolding last_component_def drop t_def by simp
  have "takeWhile (\<lambda>c. c \<noteq> CHR ''.'') (rev ext @ CHR ''.'' # rev t) = rev ext"
    by (subst takeWhile_append2) (use ext in auto)
  then have a: "takeWhile (\<lambda>c. c \<noteq> CHR ''.'') (rev (t @ ''.'' @ ext)) = rev ext"
    by simp
  have ne: "t @ ''.'' @ ext \<noteq> ''..''"
  proof
    assume "t @ ''.'' @ ext = ''..''"
    then have "last (t @ ''.'' @ ext) = CHR ''.''" by simp
    with ext show False by (cases ext rule: rev_cases) simp_all
  qed
  show ?thesis
    unfolding path_extname_def b Let_def a using t_ne ne by simp
qed

lemma process_files_step:
  "process_files S acc (f # files) =
     (case kind_of (originalname f) of
        Some Transcript \<Rightarrow>
          (case readFile S (path f) of
             Inl e \<Rightarrow> Some (Inl e)
           | Inr content \<Rightarrow>
               process_files S
                 (acc @ [JObj [(''name'', JStr (originalname f)), (''type'', JStr ''transcript''),
                               (''content'', JStr content)]]) files)
      | Some ContactList \<Rightarrow>
          (case parseCSV S (path f) of
             None \<Rightarrow> None
           | Some (Inl e) \<Rightarrow> Some (Inl e)
           | Some (Inr contacts) \<Rightarrow>
               process_files S
                 (acc @ [JObj [(''name'', JStr (originalname f)), (''type'', JStr ''contacts''),
                               (''content'', JArr contacts)]]) files)
      | None \<Rightarrow> process_files S acc files)"
  by (simp add: kind_of_def Let_def)

lemma process_files_stored:
  "list_all (stored S) files \<Longrightarrow>
   process_files S acc files = Some (Inr (acc @ concat (map (classified S) files)))"
proof (induction files arbitrary: acc)
  case Nil
  then show ?case by simp
next
  case (Cons f files)
  then have f: "stored S f"
    and IH: "\<And>acc. process_files S acc files = Some (Inr (acc @ concat (map (classified S) files)))"
    by simp_all
  show ?case
  proof (cases "kind_of (originalname f)")
    case None
    then have "classified S f = []"
      by (simp add: classified_def)
    with None show ?thesis
      unfolding process_files_step by (simp add: IH)
  next
    case (Some k)
    show ?thesis
    proof (cases k)
      case Transcript
      with Some f obtain content where c: "readFile S (path f) = Inr content"
        by (cases "readFile S (path f)") (simp_all add: stored_def raises_def)
      with Some Transcript have "classified S f =
          [JObj [(''name'', JStr (originalname f)), (''type'', JStr ''transcript''),
                 (''content'', JStr content)]]"
        by (simp add: classified_def)
      with Some Transcript c show ?thesis
        unfolding process_files_step by (simp add: IH)
    next
      case ContactList
      with Some f obtain rows where c: "csv_rows S (path f) = (rows, Ended)"
        by (cases "csv_rows S (path f)") (simp_all add: stored_def)
      with Some ContactList have "classified S f =
          [JObj [(''name'', JStr (originalname f)), (''type'', JStr ''contacts''),
                 (''content'', JArr rows)]]"
        by (simp add: classified_def)
      with Some ContactList c show ?thesis
        unfolding process_files_step by (simp add: IH parseCSV_def)
    qed
  qed
qed

lemma sample_kinds:
  "map (\<lambda>f. kind_of (originalname f)) sample_files = [Some Transcript, Some ContactList, None]"
  by (simp add: sample_files_def kind_of_def path_extname_def last_component_def toLowerCase_def
      lower_char_def Let_def)

text \<open>
  C3. For a batch of at most ten uploaded files whose stored copies can be read, file
  intake answers with one entry per \<open>.txt\<close> file, tagged \<open>transcript\<close> with the text
  of the file, and one per \<open>.csv\<close> file, tagged \<open>contacts\<close> with its parsed rows, in
  the order of the batch; a file of any other extension gives no entry and no error
  (it is not read). The extension is compared without regard to case: a name
  \<open>stem.ext\<close> is a transcript when \<open>ext\<close> in lower case is \<open>txt\<close>, a contact list when
  it is \<open>csv\<close>.
\<close>

theorem intake_classifies_by_extension:
  "(length files \<le> 10 \<and> list_all (stored S) files \<longrightarrow>
      upload_route S files =
        Inr (Some \<lparr>status = 200,
                   body = JObj [(''success'', JBool True),
                                (''files'', JArr (concat (map (classified S) files)))]\<rparr>))
   \<and> (stem \<noteq> [] \<and> last stem \<noteq> CHR ''/'' \<and> ext \<noteq> [] \<and> CHR ''.'' \<notin> set ext \<and> CHR ''/'' \<notin> set ext \<longrightarrow>
        kind_of (stem @ ''.'' @ ext) =
          (if toLowerCase ext = ''txt'' then Some Transcript
           else if toLowerCase ext = ''csv'' then Some ContactList
           else None))"
proof (intro conjI impI)
  assume "length files \<le> 10 \<and> list_all (stored S) files"
  then show "upload_route S files =
        Inr (Some \<lparr>status = 200,
                   body = JObj [(''success'', JBool True),
                                (''files'', JArr (concat (map (classified S) files)))]\<rparr>)"
    by (simp add: upload_route_def upload_def process_files_stored)
next
  assume "stem \<noteq> [] \<and> last stem \<noteq> CHR ''/'' \<and> ext \<noteq> [] \<and> CHR ''.'' \<notin> set ext \<and> CHR ''/'' \<notin> set ext"
  then have "path_extname (stem @ ''.'' @ ext) = ''.'' @ ext"
    by (intro path_extname_plain) simp_all
  then show "kind_of (stem @ ''.'' @ ext) =
          (if toLowerCase ext = ''txt'' then Some Transcript
           else if toLowerCase ext = ''csv'' then Some ContactList
           else None)"
    by (simp add: kind_of_def toLowerCase_def lower_char_def)
qed

theorem intake_classifies_by_extension_witness:
  "length sample_files \<le> 10 \<and> list_all (stored sample_storage) sample_files
   \<and> upload_route sample_storage sample_files =
        Inr (Some \<lparr>status = 200,
             body = JObj [(''success'', JBool True),
                          (''files'', JArr
                             [JObj [(''name'', JStr ''notes.TXT''), (''type'', JStr ''transcript''),
                                    (''content'', JStr ''Ann: hello'')],
                              JObj [(''name'', JStr ''team.csv''), (''type'', JStr ''contacts''),
                                    (''content'', JArr [JObj [(''name'', JStr ''Alice''),
                                                             (''email'', JStr ''alice@example.com'')]])]])]\<rparr>)
   \<and> kind_of (''notes'' @ ''.'' @ ''TXT'') = Some Transcript"
proof -
  have k: "kind_of ''notes.TXT'' = Some Transcript" "kind_of ''team.csv'' = Some ContactList"
    "kind_of ''logo.png'' = None"
    using sample_kinds by (simp_all add: sample_files_def)
  have st: "list_all (stored sample_storage) sample_files"
    by (simp add: sample_files_def stored_def k sample_storage_def raises_def)
  have cl: "concat (map (classified sample_storage) sample_files) =
      [JObj [(''name'', JStr ''notes.TXT''), (''type'', JStr ''transcript''),
             (''content'', JStr ''Ann: hello'')],
       JObj [(''name'', JStr ''team.csv''), (''type'', JStr ''contacts''),
             (''content'', JArr [JObj [(''name'', JStr ''Alice''),
                                      (''email'', JStr ''alice@example.com'')]])]]"
    by (simp add: sample_files_def classified_def k sample_storage_def)
  have len: "length sample_files \<le> 10"
    by (simp add: sample_files_def)
  from intake_classifies_by_extension [of sample_files sample_storage "''notes''" "''TXT''"]
  show ?thesis
    using st len unfolding cl by (simp add: toLowerCase_def lower_char_def)
qed

section \<open>Properties of summary generation\<close>

lemma map_of_fold_update:
  "distinct (map fst xs) \<Longrightarrow>
   map_of (fold (\<lambda>(k, v). AList.update k v) xs init) k =
     (case map_of xs k of None \<Rightarrow> map_of init k | Some v \<Rightarrow> Some v)"
proof (induction xs arbitrary: init)
  case Nil
  then show ?case by simp
next
  case (Cons p xs)
  obtain k0 v0 where p: "p = (k0, v0)" by (cases p)
  from Cons.prems p have "k0 \<notin> fst ` set xs" and d: "distinct (map fst xs)"
    by auto
  then have "map_of xs k0 = None"
    by (simp add: map_of_eq_None_iff)
  with Cons.IH [OF d, of "AList.update k0 v0 init"] p show ?case
    by (auto simp: update_conv' split: option.splits)
qed

lemma field_spread_object:
  "field (spread_result (JObj kvs)) k =
     (if map_of kvs k = None then (if k = ''success'' then JBool True else JUndefined)
      else property kvs k)"
proof -
  have "map_of (fold (\<lambda>(k, v). AList.update k v) (AList.clearjunk kvs) [(''success'', JBool True)]) k
      = (case map_of kvs k of None \<Rightarrow> map_of [(''success'', JBool True)] k | Some v \<Rightarrow> Some v)"
    by (simp add: map_of_fold_update distinct_clearjunk map_of_clearjunk)
  then show ?thesis
    by (auto simp: spread_result_def property_def split: option.splits)
qed

lemma is_failure_response_failure: "c \<noteq> 200 \<Longrightarrow> is_failure_response (failure c (JStr m))"
  by (simp add: is_failure_response_def failure_def property_def is_string_def)

text \<open>
  C1, as stated, fails: when the model answers \<open>{}\<close>, which parses, the handler
  answers with status 200 and the body \<open>{success: true}\<close>, which is neither a result
  with \<open>summary\<close> and \<open>actionItems\<close> nor a failure.
\<close>

theorem summary_unvalidated_counterexample:
  "\<not> (is_summary_response
        (generate_summary sample_numerics chat_request_resend (reply_with ''{}'') sample_parse
           sample_transcript)
      \<or> is_failure_response
        (generate_summary sample_numerics chat_request_resend (reply_with ''{}'') sample_parse
           sample_transcript))"
  by (simp add: generate_summary_def summary_result_def sample_transcript_def property_def
      reply_with_def first_content_def sample_parse_def spread_result_def
      is_summary_response_def is_failure_response_def)

text \<open>
  C1, amended. For a request with a transcript string the handler does one of four
  things. When the provider call fails it answers status 500 with \<open>success: false\<close>
  and the provider's message. When the completion has no choice it answers 500 with the
  engine's message. When the text of the first choice does not parse it answers 500 with
  the parser's message. When the text parses it answers 200 with \<open>success: true\<close>
  merged with the properties of the parsed value, whatever it is: the parsed value is
  not validated, so the answer has a property (also \<open>summary\<close>, \<open>actionItems\<close>,
  \<open>success\<close>) exactly with the value the parsed object gives it, and it carries a
  nonempty \<open>summary\<close> and an array \<open>actionItems\<close> exactly when the parsed object does
  (and does not set \<open>success\<close> to something else); a parsed \<open>null\<close>, boolean or
  number adds nothing to \<open>success: true\<close>.
\<close>

theorem summary_outcome:
  assumes "field req_body ''transcript'' = JStr t"
  shows
    "(create (mk_request (summary_prompt t)) = Inl e \<longrightarrow>
        generate_summary N mk_request create JSON_parse req_body =
          \<lparr>status = 500,
           body = JObj [(''success'', JBool False), (''error'', JStr (error_message e))]\<rparr>)
     \<and> (create (mk_request (summary_prompt t)) = Inr [] \<longrightarrow>
        generate_summary N mk_request create JSON_parse req_body =
          \<lparr>status = 500,
           body = JObj [(''success'', JBool False),
                        (''error'', JStr (''Cannot read properties of undefined (reading ''
                                           @ [CHR 0x27] @ ''message'' @ [CHR 0x27] @ '')''))]\<rparr>)
     \<and> (create (mk_request (summary_prompt t)) = Inr (content # others)
          \<and> JSON_parse (case content of None \<Rightarrow> ''null'' | Some c \<Rightarrow> c) = Inl e \<longrightarrow>
        generate_summary N mk_request create JSON_parse req_body =
          \<lparr>status = 500,
           body = JObj [(''success'', JBool False), (''error'', JStr (error_message e))]\<rparr>)
     \<and> (create (mk_request (summary_prompt t)) = Inr (content # others)
          \<and> JSON_parse (case content of None \<Rightarrow> ''null'' | Some c \<Rightarrow> c) = Inr result \<longrightarrow>
        generate_summary N mk_request create JSON_parse req_body =
          \<lparr>status = 200, body = spread_result result\<rparr>)
     \<and> field (spread_result (JObj kvs)) k =
          (if map_of kvs k = None then (if k = ''success'' then JBool True else JUndefined)
           else property kvs k)
     \<and> is_summary_response \<lparr>status = 200, body = spread_result (JObj kvs)\<rparr> =
          ((map_of kvs ''success'' = None \<or> property kvs ''success'' = JBool True)
           \<and> (case property kvs ''summary'' of JStr s \<Rightarrow> s \<noteq> [] | _ \<Rightarrow> False)
           \<and> is_array (property kvs ''actionItems''))
     \<and> spread_result JNull = JObj [(''success'', JBool True)]
     \<and> spread_result (JBool b) = JObj [(''success'', JBool True)]
     \<and> spread_result (JNum n) = JObj [(''success'', JBool True)]
     \<and> spread_result (JObj []) = JObj [(''success'', JBool True)]"
proof -
  from field_object [OF assms] obtain fields where body: "req_body = JObj fields"
    by auto
  with assms have tr: "property fields ''transcript'' = JStr t"
    by simp
  have sr: "summary_result N mk_request create JSON_parse req_body =
      then_do (create (mk_request (summary_prompt t))) (\<lambda>completion.
      then_do (first_content completion) (\<lambda>content.
      JSON_parse (case content of None \<Rightarrow> ''null'' | Some c \<Rightarrow> c)))"
    by (simp add: summary_result_def body tr)
  have none: "map_of kvs k = None \<Longrightarrow> property kvs k = JUndefined" for k
    by (simp add: property_def)
  show ?thesis
  proof (intro conjI impI)
    show "is_summary_response \<lparr>status = 200, body = spread_result (JObj kvs)\<rparr> =
          ((map_of kvs ''success'' = None \<or> property kvs ''success'' = JBool True)
           \<and> (case property kvs ''summary'' of JStr s \<Rightarrow> s \<noteq> [] | _ \<Rightarrow> False)
           \<and> is_array (property kvs ''actionItems''))"
      by (auto simp: is_summary_response_def field_spread_object none is_array_def)
    show "field (spread_result (JObj kvs)) k =
          (if map_of kvs k = None then (if k = ''success'' then JBool True else JUndefined)
           else property kvs k)"
      by (rule field_spread_object)
  qed (auto simp: generate_summary_def sr first_content_def failure_def cannot_read_def
      apostrophe_def spread_result_def)
qed

theorem summary_outcome_witness:
  \<open>field sample_transcript ''transcript'' = JStr ''Ann: hello''
   \<and> provider_down (chat_request_nodemailer (summary_prompt ''Ann: hello''))
        = Inl (Failure ''429 Too Many Requests'')
   \<and> generate_summary sample_numerics chat_request_nodemailer provider_down sample_parse
        sample_transcript
        = \<lparr>status = 500,
           body = JObj [(''success'', JBool False), (''error'', JStr ''429 Too Many Requests'')]\<rparr>
   \<and> sample_parse ''not json'' = Inl (SyntaxError ''Unexpected token'')
   \<and> generate_summary sample_numerics chat_request_nodemailer (reply_with ''not json'') sample_parse
        sample_transcript
        = \<lparr>status = 500,
           body = JObj [(''success'', JBool False), (''error'', JStr ''Unexpected token'')]\<rparr>
   \<and> sample_parse ''{"summary":"All agreed.","actionItems":[]}''
        = Inr (JObj [(''summary'', JStr ''All agreed.''), (''actionItems'', JArr [])])
   \<and> generate_summary sample_numerics chat_request_nodemailer
        (reply_with ''{"summary":"All agreed.","actionItems":[]}'') sample_parse sample_transcript
        = \<lparr>status = 200,
           body = JObj [(''success'', JBool True), (''summary'', JStr ''All agreed.''),
                        (''actionItems'', JArr [])]\<rparr>
   \<and> is_summary_response
        \<lparr>status = 200,
         body = spread_result (JObj [(''summary'', JStr ''All agreed.''),
                                     (''actionItems'', JArr [] :: unit jsval)])\<rparr>\<close>
proof -
  have f: "field sample_transcript ''transcript'' = JStr ''Ann: hello''"
    by (simp add: sample_transcript_def property_def)
  have p1: "provider_down (chat_request_nodemailer (summary_prompt ''Ann: hello''))
      = Inl (Failure ''429 Too Many Requests'')"
    by (simp add: provider_down_def)
  have p2: "reply_with reply (chat_request_nodemailer (summary_prompt ''Ann: hello''))
      = Inr [Some reply]" for reply
    by (simp add: reply_with_def)
  have j1: "sample_parse ''not json'' = Inl (SyntaxError ''Unexpected token'')"
    by (simp add: sample_parse_def)
  have j2: \<open>sample_parse ''{"summary":"All agreed.","actionItems":[]}''
      = Inr (JObj [(''summary'', JStr ''All agreed.''), (''actionItems'', JArr [])])\<close>
    by (simp add: sample_parse_def)
  have sp: "spread_result (JObj [(''summary'', JStr ''All agreed.''), (''actionItems'', JArr [] :: unit jsval)])
      = JObj [(''success'', JBool True), (''summary'', JStr ''All agreed.''), (''actionItems'', JArr [])]"
    by (simp add: spread_result_def AList.delete_eq)
  note down = summary_outcome [OF f, where N = sample_numerics and mk_request = chat_request_nodemailer
      and create = provider_down and JSON_parse = sample_parse
      and e = "Failure ''429 Too Many Requests''", THEN conjunct1]
  note bad = summary_outcome [OF f, where N = sample_numerics and mk_request = chat_request_nodemailer
      and create = "reply_with ''not json''" and JSON_parse = sample_parse
      and e = "SyntaxError ''Unexpected token''" and content = "Some ''not json''" and others = "[]",
      THEN conjunct2, THEN conjunct2, THEN conjunct1]
  note good = summary_outcome [OF f, where N = sample_numerics and mk_request = chat_request_nodemailer
      and create = \<open>reply_with ''{"summary":"All agreed.","actionItems":[]}''\<close>
      and JSON_parse = sample_parse
      and content = \<open>Some ''{"summary":"All agreed.","actionItems":[]}''\<close> and others = "[]"
      and result = "JObj [(''summary'', JStr ''All agreed.''), (''actionItems'', JArr [])]"
      and kvs = "[(''summary'', JStr ''All agreed.''), (''actionItems'', JArr [])]",
      THEN conjunct2, THEN conjunct2, THEN conjunct2]
  from down p1 have a: "generate_summary sample_numerics chat_request_nodemailer provider_down
      sample_parse sample_transcript
      = \<lparr>status = 500,
         body = JObj [(''success'', JBool False), (''error'', JStr ''429 Too Many Requests'')]\<rparr>"
    by simp
  from bad j1 have b: "generate_summary sample_numerics chat_request_nodemailer
      (reply_with ''not json'') sample_parse sample_transcript
      = \<lparr>status = 500,
         body = JObj [(''success'', JBool False), (''error'', JStr ''Unexpected token'')]\<rparr>"
    by (simp add: p2)
  from good [THEN conjunct1] j2 have c: \<open>generate_summary sample_numerics chat_request_nodemailer
      (reply_with ''{"summary":"All agreed.","actionItems":[]}'') sample_parse sample_transcript
      = \<lparr>status = 200,
         body = JObj [(''success'', JBool True), (''summary'', JStr ''All agreed.''),
                      (''actionItems'', JArr [])]\<rparr>\<close>
    by (simp add: p2 sp)
  from good [THEN conjunct2, THEN conjunct2, THEN conjunct1]
  have d: "is_summary_response
        \<lparr>status = 200,
         body = spread_result (JObj [(''summary'', JStr ''All agreed.''),
                                     (''actionItems'', JArr [] :: unit jsval)])\<rparr>"
    by (simp add: property_def is_array_def)
  from f p1 j1 j2 a b c d show ?thesis by blast
qed

section \<open>Properties of dispatch\<close>

lemma render_request_page:
  assumes "field req_body ''summary'' = JStr s" "field req_body ''actionItems'' = JArr items"
    "field req_body ''recipients'' = JArr rs" "list_all is_recipient rs" "list_all is_action_item items"
  shows "render_request N req_body =
           Inr (page (banner_of rs) (replace_newlines s) (concat (map item_row items)))"
proof -
  from field_object [OF assms(1)] obtain kvs where "req_body = JObj kvs" by auto
  with assms show ?thesis
    by (simp add: render_request_def formatEmailContent_page)
qed

lemma send_emails_calls:
  "snd (send_emails N resend req_body) =
     (case resend of
        None \<Rightarrow> []
      | Some send \<Rightarrow>
          (case render_request N req_body of Inl e \<Rightarrow> [] | Inr emailContent \<Rightarrow> [test_mail emailContent]))"
  by (simp add: send_emails_def split: option.splits sum.splits)

lemma html_open_split: "\<exists>pre. html_open = pre @ ''Intended Recipients:</strong> ''"
  by (simp add: html_open_def template_lines_def)

lemma html_after_recipients_split: "\<exists>post. html_after_recipients = ''<br>'' @ post"
  by (simp add: html_after_recipients_def)

text \<open>
  C7. In the redirect mode the handler hands at most one message to the delivery
  service, and every message it hands over is addressed to the fixed operator address,
  whatever the request. For a well-formed request it is exactly one message, from the
  utility's sender, to the operator address, with the fixed subject, whose body is the
  rendered document: in it the banner of the intended recipients (their display texts
  joined, or the fallback text) stands between \<open>Intended Recipients:\<close> and the line
  break. When the service accepts the message, the answer names the operator address as
  the target.
\<close>

theorem redirect_to_operator:
  \<open>(\<forall>m \<in> set (snd (send_emails N resend req_body)). mail_to m = JStr ''markgleasonwork@gmail.com'')
   \<and> length (snd (send_emails N resend req_body)) \<le> 1
   \<and> (field req_body ''summary'' = JStr s \<and> field req_body ''actionItems'' = JArr items
        \<and> field req_body ''recipients'' = JArr rs
        \<and> list_all is_recipient rs \<and> list_all is_action_item items \<longrightarrow>
      snd (send_emails N (Some send) req_body) =
        [\<lparr>mail_from = JStr ''Meeting Transcript Utility <markgleasonwork@gmail.com>'',
          mail_to = JStr ''markgleasonwork@gmail.com'',
          mail_subject = ''Meeting Summary and Action Items'',
          mail_html = html_open @ banner_of rs @ html_after_recipients @ replace_newlines s
                        @ html_after_summary @ concat (map item_row items) @ html_close\<rparr>]
      \<and> (\<exists>pre post.
            html_open @ banner_of rs @ html_after_recipients @ replace_newlines s
              @ html_after_summary @ concat (map item_row items) @ html_close
            = pre @ ''Intended Recipients:</strong> '' @ banner_of rs @ ''<br>'' @ post)
      \<and> (delivered N
            (send \<lparr>mail_from = JStr ''Meeting Transcript Utility <markgleasonwork@gmail.com>'',
                   mail_to = JStr ''markgleasonwork@gmail.com'',
                   mail_subject = ''Meeting Summary and Action Items'',
                   mail_html = html_open @ banner_of rs @ html_after_recipients @ replace_newlines s
                                 @ html_after_summary @ concat (map item_row items) @ html_close\<rparr>) \<longrightarrow>
           (\<exists>data. fst (send_emails N (Some send) req_body) =
              \<lparr>status = 200,
               body = JObj [(''success'', JBool True),
                            (''message'', JStr ''Email sent to markgleasonwork@gmail.com with intended recipients listed in the email body''),
                            (''data'', data)]\<rparr>)))\<close>
proof (intro conjI impI ballI)
  fix m assume "m \<in> set (snd (send_emails N resend req_body))"
  then show "mail_to m = JStr ''markgleasonwork@gmail.com''"
    by (auto simp: send_emails_calls test_mail_def testEmail_def split: option.splits sum.splits)
next
  show "length (snd (send_emails N resend req_body)) \<le> 1"
    by (simp add: send_emails_calls split: option.splits sum.splits)
next
  assume a: "field req_body ''summary'' = JStr s \<and> field req_body ''actionItems'' = JArr items
        \<and> field req_body ''recipients'' = JArr rs
        \<and> list_all is_recipient rs \<and> list_all is_action_item items"
  define html where "html = html_open @ banner_of rs @ html_after_recipients @ replace_newlines s
      @ html_after_summary @ concat (map item_row items) @ html_close"
  from a have r: "render_request N req_body = Inr html"
    unfolding html_def page_def [symmetric] by (intro render_request_page) simp_all
  have m: "test_mail html =
      \<lparr>mail_from = JStr ''Meeting Transcript Utility <markgleasonwork@gmail.com>'',
       mail_to = JStr ''markgleasonwork@gmail.com'',
       mail_subject = ''Meeting Summary and Action Items'',
       mail_html = html\<rparr>"
    by (simp add: test_mail_def testEmail_def)
  show "snd (send_emails N (Some send) req_body) =
        [\<lparr>mail_from = JStr ''Meeting Transcript Utility <markgleasonwork@gmail.com>'',
          mail_to = JStr ''markgleasonwork@gmail.com'',
          mail_subject = ''Meeting Summary and Action Items'',
          mail_html = html_open @ banner_of rs @ html_after_recipients @ replace_newlines s
                        @ html_after_summary @ concat (map item_row items) @ html_close\<rparr>]"
    unfolding html_def [symmetric] m [symmetric] by (simp add: send_emails_calls r)
  from html_open_split html_after_recipients_split
  obtain pre post where "html_open = pre @ ''Intended Recipients:</strong> ''"
    "html_after_recipients = ''<br>'' @ post"
    by blast
  then show "\<exists>pre post.
            html_open @ banner_of rs @ html_after_recipients @ replace_newlines s
              @ html_after_summary @ concat (map item_row items) @ html_close
            = pre @ ''Intended Recipients:</strong> '' @ banner_of rs @ ''<br>'' @ post"
    by (metis append.assoc)
  assume "delivered N
            (send \<lparr>mail_from = JStr ''Meeting Transcript Utility <markgleasonwork@gmail.com>'',
                   mail_to = JStr ''markgleasonwork@gmail.com'',
                   mail_subject = ''Meeting Summary and Action Items'',
                   mail_html = html_open @ banner_of rs @ html_after_recipients @ replace_newlines s
                                 @ html_after_summary @ concat (map item_row items) @ html_close\<rparr>)"
  then have "delivered N (send (test_mail html))"
    unfolding html_def [symmetric] m [symmetric] .
  then obtain kvs where s: "send (test_mail html) = Inr (JObj kvs)"
    "\<not> js_truthy N (property kvs ''error'')"
    by (auto simp: delivered_def split: sum.splits jsval.splits)
  then show "\<exists>data. fst (send_emails N (Some send) req_body) =
              \<lparr>status = 200,
               body = JObj [(''success'', JBool True),
                            (''message'', JStr ''Email sent to markgleasonwork@gmail.com with intended recipients listed in the email body''),
                            (''data'', data)]\<rparr>"
    by (simp add: send_emails_def r after_send_def testEmail_def)
qed

theorem redirect_to_operator_witness:
  \<open>field sample_request ''summary'' = JStr ''Done.''
   \<and> field sample_request ''actionItems'' = JArr sample_items
   \<and> field sample_request ''recipients'' = JArr sample_recipients
   \<and> list_all is_recipient sample_recipients \<and> list_all is_action_item sample_items
   \<and> (\<forall>m. delivered sample_numerics (sample_service ''re_key'' m))
   \<and> snd (send_emails sample_numerics (Some (sample_service ''re_key'')) sample_request) =
        [\<lparr>mail_from = JStr ''Meeting Transcript Utility <markgleasonwork@gmail.com>'',
          mail_to = JStr ''markgleasonwork@gmail.com'',
          mail_subject = ''Meeting Summary and Action Items'',
          mail_html = [CHR 0x0A] @ ''    <html>''
                      @ [CHR 0x0A] @ ''      <body style="font-family: Arial, sans-serif; line-height: 1.6; color: #333;">''
                      @ [CHR 0x0A] @ ''        <div style="background-color: #fffbcc; padding: 15px; border-radius: 5px; margin-bottom: 20px; border: 1px solid #f5e642;">''
                      @ [CHR 0x0A] @ ''          <strong>'' @ [CHR 0xF0, CHR 0x9F, CHR 0x93, CHR 0xA7] @ '' Intended Recipients:</strong> ann@example.com, raj@example.com, [object Object]<br>''
                      @ [CHR 0x0A] @ ''          <em style="color: #666; font-size: 14px;">Note: This test email was sent only to markgleasonwork@gmail.com</em>''
                      @ [CHR 0x0A] @ ''        </div>''
                      @ [CHR 0x0A] @ ''        ''
                      @ [CHR 0x0A] @ ''        <h2>Meeting Summary</h2>''
                      @ [CHR 0x0A] @ ''        <div style="background-color: #f4f4f4; padding: 15px; border-radius: 5px;">''
                      @ [CHR 0x0A] @ ''          Done.''
                      @ [CHR 0x0A] @ ''        </div>''
                      @ [CHR 0x0A] @ ''        ''
                      @ [CHR 0x0A] @ ''        <h2>Action Items</h2>''
                      @ [CHR 0x0A] @ ''        <table style="width: 100%; border-collapse: collapse; margin-top: 10px;">''
                      @ [CHR 0x0A] @ ''          <tr style="background-color: #e9e9e9;">''
                      @ [CHR 0x0A] @ ''            <th style="padding: 10px; text-align: left; border: 1px solid #ddd;">Action Item</th>''
                      @ [CHR 0x0A] @ ''            <th style="padding: 10px; text-align: left; border: 1px solid #ddd;">Owner</th>''
                      @ [CHR 0x0A] @ ''            <th style="padding: 10px; text-align: left; border: 1px solid #ddd;">Timeline</th>''
                      @ [CHR 0x0A] @ ''          </tr>''
                      @ [CHR 0x0A] @ ''          <tr>''
                      @ [CHR 0x0A] @ ''            <td style="padding: 10px; border: 1px solid #ddd;">Ship the report</td>''
                      @ [CHR 0x0A] @ ''            <td style="padding: 10px; border: 1px solid #ddd;">Ann</td>''
                      @ [CHR 0x0A] @ ''            <td style="padding: 10px; border: 1px solid #ddd;">Friday</td>''
                      @ [CHR 0x0A] @ ''          </tr>''
                      @ [CHR 0x0A] @ ''          <tr>''
                      @ [CHR 0x0A] @ ''            <td style="padding: 10px; border: 1px solid #ddd;">Book a room</td>''
                      @ [CHR 0x0A] @ ''            <td style="padding: 10px; border: 1px solid #ddd;">Raj</td>''
                      @ [CHR 0x0A] @ ''            <td style="padding: 10px; border: 1px solid #ddd;">Not specified</td>''
                      @ [CHR 0x0A] @ ''          </tr>''
                      @ [CHR 0x0A] @ ''          <tr>''
                      @ [CHR 0x0A] @ ''            <td style="padding: 10px; border: 1px solid #ddd;">undefined</td>''
                      @ [CHR 0x0A] @ ''            <td style="padding: 10px; border: 1px solid #ddd;">undefined</td>''
                      @ [CHR 0x0A] @ ''            <td style="padding: 10px; border: 1px solid #ddd;">Q3</td>''
                      @ [CHR 0x0A] @ ''          </tr>''
                      @ [CHR 0x0A] @ ''        </table>''
                      @ [CHR 0x0A] @ ''      </body>''
                      @ [CHR 0x0A] @ ''    </html>''\<rparr>]
   \<and> fst (send_emails sample_numerics (Some (sample_service ''re_key'')) sample_request) =
          \<lparr>status = 200,
           body = JObj [(''success'', JBool True),
                        (''message'', JStr ''Email sent to markgleasonwork@gmail.com with intended recipients listed in the email body''),
                        (''data'', JObj [(''id'', JStr ''re_1'')])]\<rparr>\<close>
proof -
  have f: "field sample_request ''summary'' = JStr ''Done.''"
    "field sample_request ''actionItems'' = JArr sample_items"
    "field sample_request ''recipients'' = JArr sample_recipients"
    by (simp_all add: sample_request_def property_def)
  have d: "delivered sample_numerics (sample_service ''re_key'' m)" for m
    by (simp add: delivered_def sample_service_def property_def)
  have rows: "concat (map item_row sample_items) =
      table_row_text ''Ship the report'' ''Ann'' ''Friday''
      @ table_row_text ''Book a room'' ''Raj'' ''Not specified''
      @ table_row_text ''undefined'' ''undefined'' ''Q3''"
    using sample_rows by (simp add: row_html_text)
  note t = redirect_to_operator [of sample_numerics "Some (sample_service ''re_key'')" sample_request
      "''Done.''" sample_items sample_recipients "sample_service ''re_key''",
      THEN conjunct2, THEN conjunct2, rule_format, OF conjI [OF f(1) conjI [OF f(2) conjI [OF f(3)
        conjI [OF sample_recipients_ok sample_items_ok]]]]]
  from t [THEN conjunct1] have calls:
    "snd (send_emails sample_numerics (Some (sample_service ''re_key'')) sample_request) =
        [\<lparr>mail_from = JStr ''Meeting Transcript Utility <markgleasonwork@gmail.com>'',
          mail_to = JStr ''markgleasonwork@gmail.com'',
          mail_subject = ''Meeting Summary and Action Items'',
          mail_html = html_open @ ''ann@example.com, raj@example.com, [object Object]''
                        @ html_after_recipients @ ''Done.'' @ html_after_summary
                        @ (table_row_text ''Ship the report'' ''Ann'' ''Friday''
                           @ table_row_text ''Book a room'' ''Raj'' ''Not specified''
                           @ table_row_text ''undefined'' ''undefined'' ''Q3'')
                        @ html_close\<rparr>]"
    unfolding sample_banner sample_summary rows .
  from t [THEN conjunct2, THEN conjunct2, rule_format, OF d]
  obtain data where "fst (send_emails sample_numerics (Some (sample_service ''re_key'')) sample_request) =
          \<lparr>status = 200,
           body = JObj [(''success'', JBool True),
                        (''message'', JStr ''Email sent to markgleasonwork@gmail.com with intended recipients listed in the email body''),
                        (''data'', data)]\<rparr>"
    by blast
  moreover have "field (body (fst (send_emails sample_numerics (Some (sample_service ''re_key''))
      sample_request))) ''data'' = JObj [(''id'', JStr ''re_1'')]"
    using calls
    by (simp add: send_emails_def after_send_def sample_service_def property_def
        split: sum.splits)
  ultimately have resp: "fst (send_emails sample_numerics (Some (sample_service ''re_key'')) sample_request) =
          \<lparr>status = 200,
           body = JObj [(''success'', JBool True),
                        (''message'', JStr ''Email sent to markgleasonwork@gmail.com with intended recipients listed in the email body''),
                        (''data'', JObj [(''id'', JStr ''re_1'')])]\<rparr>"
    by (simp add: property_def)
  show ?thesis
    unfolding calls resp
    by (simp add: f d sample_recipients_ok sample_items_ok html_open_def html_after_recipients_def
        html_after_summary_def html_close_def table_row_text_def template_lines_def nl_def
        envelope_def)
qed

text \<open>
  C9. When \<open>RESEND_API_KEY\<close> is not set (or empty), startup builds no client and logs
  a warning instead of failing, and every request to the dispatch endpoint is answered
  with status 500 and a message that names the missing key; no message is sent.
\<close>

theorem missing_credential_reported:
  "env ''RESEND_API_KEY'' = None \<or> env ''RESEND_API_KEY'' = Some [] \<longrightarrow>
     resend_client env service = None
     \<and> startup_warnings env = [''WARNING: RESEND_API_KEY not found. Email features will not work.'']
     \<and> send_emails N (resend_client env service) req_body =
         (\<lparr>status = 500,
           body = JObj [(''success'', JBool False),
                        (''error'', JStr ''Resend API key not configured. Please add RESEND_API_KEY to environment variables.'')]\<rparr>,
          [])"
  by (auto simp: resend_client_def startup_warnings_def send_emails_def failure_def not_configured_def)

theorem missing_credential_reported_witness:
  "sample_env ''RESEND_API_KEY'' = None
   \<and> resend_client sample_env sample_service = None
   \<and> send_emails sample_numerics (resend_client sample_env sample_service) sample_request =
         (\<lparr>status = 500,
           body = JObj [(''success'', JBool False),
                        (''error'', JStr ''Resend API key not configured. Please add RESEND_API_KEY to environment variables.'')]\<rparr>,
          [])"
proof -
  have h: "sample_env ''RESEND_API_KEY'' = None"
    by (simp add: sample_env_def)
  from missing_credential_reported [of sample_env sample_service sample_numerics sample_request] h
  show ?thesis by blast
qed

lemma accepted_before:
  "j < accepted_count sendMail attempted ms \<Longrightarrow> sendMail (attempted @ take j ms) (ms ! j) = None"
proof (induction ms arbitrary: attempted j)
  case Nil
  then show ?case by simp
next
  case (Cons m ms)
  then have m: "sendMail attempted m = None"
    by (cases "sendMail attempted m") simp_all
  show ?case
  proof (cases j)
    case 0
    with m show ?thesis by simp
  next
    case (Suc i)
    with Cons.prems m have "i < accepted_count sendMail (attempted @ [m]) ms" by simp
    from Cons.IH [OF this] Suc show ?thesis by simp
  qed
qed

lemma first_rejected:
  "accepted_count sendMail attempted ms < length ms \<Longrightarrow>
   \<exists>e. sendMail (attempted @ take (accepted_count sendMail attempted ms) ms)
          (ms ! accepted_count sendMail attempted ms) = Some e"
proof (induction ms arbitrary: attempted)
  case Nil
  then show ?case by simp
next
  case (Cons m ms)
  show ?case
  proof (cases "sendMail attempted m")
    case None
    with Cons.prems have "accepted_count sendMail (attempted @ [m]) ms < length ms" by simp
    from Cons.IH [OF this] None show ?thesis by simp
  next
    case (Some e)
    then show ?thesis by simp
  qed
qed

lemma send_each_addressed:
  "list_all is_present rs \<Longrightarrow>
   send_each env sendMail html attempted rs =
     (if accepted_count sendMail attempted (addressed env html rs) = length rs then None
      else sendMail (attempted @ take (accepted_count sendMail attempted (addressed env html rs))
                       (addressed env html rs))
             (addressed env html rs ! accepted_count sendMail attempted (addressed env html rs)),
      attempted @ take (Suc (accepted_count sendMail attempted (addressed env html rs)))
                    (addressed env html rs))"
proof (induction rs arbitrary: attempted)
  case Nil
  then show ?case by (simp add: addressed_def)
next
  case (Cons r rs)
  then have g: "js_get r ''email'' = Inr (field r ''email'')" and rs: "list_all is_present rs"
    by (simp_all add: js_get_present)
  have a: "addressed env html (r # rs) = recipient_mail env html (field r ''email'') # addressed env html rs"
    by (simp add: addressed_def)
  show ?case
  proof (cases "sendMail attempted (recipient_mail env html (field r ''email''))")
    case None
    with Cons.IH [OF rs, of "attempted @ [recipient_mail env html (field r ''email'')]"] g
    show ?thesis unfolding a by simp
  next
    case (Some e)
    with g show ?thesis unfolding a by simp
  qed
qed

lemma send_emails_nodemailer_rendered:
  assumes "field req_body ''summary'' = JStr s" "field req_body ''actionItems'' = JArr items"
    "field req_body ''recipients'' = JArr rs" "list_all is_action_item items"
  shows "send_emails_nodemailer N env sendMail req_body =
     (case send_each env sendMail
             (page_nodemailer (replace_newlines s) (concat (map item_row items))) [] rs of
        (Some e, attempted) \<Rightarrow> (failure 500 (JStr (error_message e)), attempted)
      | (None, attempted) \<Rightarrow>
          (\<lparr>status = 200,
            body = JObj [(''success'', JBool True), (''message'', JStr ''Emails sent successfully'')]\<rparr>,
           attempted))"
proof -
  from field_object [OF assms(1)] obtain kvs where "req_body = JObj kvs" by auto
  with assms show ?thesis
    by (simp add: send_emails_nodemailer_def formatEmailContent_nodemailer_page)
qed

text \<open>
  C8. In the direct mode the messages are handed to the transporter one after the other,
  one per recipient in the order of the list (\<open>ms\<close>). With \<open>k\<close> the number of messages
  accepted before the first rejection, the calls made are the first \<open>k + 1\<close> messages
  (all of them when none is rejected): the first \<open>k\<close> were accepted and stay sent, the
  next one is the rejected one, and no later message is tried. The answer is the failure
  with the message of that first error, or the success when every message was accepted.
\<close>

theorem multi_send_stops_at_first_failure:
  assumes "field req_body ''summary'' = JStr s" "field req_body ''actionItems'' = JArr items"
    "field req_body ''recipients'' = JArr rs" "list_all is_action_item items"
    "list_all is_present rs"
    and ms: "ms = addressed env (page_nodemailer (replace_newlines s) (concat (map item_row items))) rs"
    and k: "k = accepted_count sendMail [] ms"
  shows "snd (send_emails_nodemailer N env sendMail req_body) = take (Suc k) ms
       \<and> (\<forall>j < k. sendMail (take j ms) (ms ! j) = None)
       \<and> (k = length ms \<longrightarrow>
            send_emails_nodemailer N env sendMail req_body =
              (\<lparr>status = 200,
                body = JObj [(''success'', JBool True), (''message'', JStr ''Emails sent successfully'')]\<rparr>,
               ms))
       \<and> (k < length ms \<longrightarrow>
            (\<exists>e. sendMail (take k ms) (ms ! k) = Some e
                \<and> fst (send_emails_nodemailer N env sendMail req_body) =
                    \<lparr>status = 500,
                     body = JObj [(''success'', JBool False), (''error'', JStr (error_message e))]\<rparr>))"
proof -
  have len: "length ms = length rs"
    by (simp add: ms addressed_def)
  note r = send_emails_nodemailer_rendered [OF assms(1-4), of N env sendMail]
  note e = send_each_addressed [OF assms(5), of env sendMail
      "page_nodemailer (replace_newlines s) (concat (map item_row items))" "[]", folded ms, folded k]
  show ?thesis
  proof (intro conjI allI impI)
    show "snd (send_emails_nodemailer N env sendMail req_body) = take (Suc k) ms"
      unfolding r e by (simp add: len split: option.splits)
    show "sendMail (take j ms) (ms ! j) = None" if "j < k" for j
      using accepted_before [of j sendMail "[]" ms] that k by simp
    show "send_emails_nodemailer N env sendMail req_body =
              (\<lparr>status = 200,
                body = JObj [(''success'', JBool True), (''message'', JStr ''Emails sent successfully'')]\<rparr>,
               ms)" if "k = length ms"
      unfolding r e using that by (simp add: len)
    show "\<exists>e. sendMail (take k ms) (ms ! k) = Some e
                \<and> fst (send_emails_nodemailer N env sendMail req_body) =
                    \<lparr>status = 500,
                     body = JObj [(''success'', JBool False), (''error'', JStr (error_message e))]\<rparr>"
      if "k < length ms"
    proof -
      from first_rejected [of sendMail "[]" ms] that k
      obtain e where "sendMail (take k ms) (ms ! k) = Some e" by auto
      with that show ?thesis
        unfolding r e by (simp add: len failure_def)
    qed
  qed
qed

theorem multi_send_stops_at_first_failure_witness:
  "field sample_contacts_request ''summary'' = JStr ''Done.''
   \<and> field sample_contacts_request ''actionItems'' = JArr sample_items
   \<and> field sample_contacts_request ''recipients'' = JArr sample_contacts
   \<and> list_all is_action_item sample_items \<and> list_all is_present sample_contacts
   \<and> accepted_count sample_sendMail []
        (addressed sample_env (page_nodemailer (replace_newlines ''Done.'') (concat (map item_row sample_items)))
           sample_contacts) = 1
   \<and> map mail_to (snd (send_emails_nodemailer sample_numerics sample_env sample_sendMail
                          sample_contacts_request))
        = [JStr ''ann@example.com'', JStr ''raj@example.com'']
   \<and> fst (send_emails_nodemailer sample_numerics sample_env sample_sendMail sample_contacts_request)
        = \<lparr>status = 500,
           body = JObj [(''success'', JBool False), (''error'', JStr ''550 mailbox unavailable'')]\<rparr>"
proof -
  define html where "html = page_nodemailer (replace_newlines ''Done.'') (concat (map item_row sample_items))"
  define ms where "ms = addressed sample_env html sample_contacts"
  have f: "field sample_contacts_request ''summary'' = JStr ''Done.''"
    "field sample_contacts_request ''actionItems'' = JArr sample_items"
    "field sample_contacts_request ''recipients'' = JArr sample_contacts"
    by (simp_all add: sample_contacts_request_def property_def)
  have pr: "list_all is_present sample_contacts"
    by (simp add: sample_contacts_def is_present_def)
  have to: "map mail_to ms = [JStr ''ann@example.com'', JStr ''raj@example.com'', JStr ''li@example.com'']"
    by (simp add: ms_def addressed_def sample_contacts_def recipient_mail_def property_def)
  then obtain m0 m1 m2 where m: "ms = [m0, m1, m2]" "mail_to m0 = JStr ''ann@example.com''"
    "mail_to m1 = JStr ''raj@example.com''" "mail_to m2 = JStr ''li@example.com''"
    by (auto simp: map_eq_Cons_conv)
  have k: "accepted_count sample_sendMail [] ms = 1"
    by (simp add: m sample_sendMail_def)
  note t = multi_send_stops_at_first_failure [where N = sample_numerics and sendMail = sample_sendMail,
      OF f sample_items_ok pr ms_def [unfolded html_def] refl, folded html_def, folded ms_def, unfolded k]
  from t have calls: "snd (send_emails_nodemailer sample_numerics sample_env sample_sendMail
      sample_contacts_request) = [m0, m1]"
    by (simp add: m)
  from t obtain e where e: "sample_sendMail (take 1 ms) (ms ! 1) = Some e"
    "fst (send_emails_nodemailer sample_numerics sample_env sample_sendMail sample_contacts_request)
       = \<lparr>status = 500, body = JObj [(''success'', JBool False), (''error'', JStr (error_message e))]\<rparr>"
    by (auto simp: m)
  from e(1) have "e = Failure ''550 mailbox unavailable''"
    by (simp add: m sample_sendMail_def)
  with e(2) calls f sample_items_ok pr k show ?thesis
    unfolding html_def [symmetric] ms_def [symmetric] by (simp add: m)
qed

subsection \<open>Recipients in the two variants\<close>

text \<open>
  C5, as stated, fails in the direct dispatcher, which the claim also cites: a recipient
  given as a bare address is not used as the address. The message for it is addressed to
  its \<open>email\<close> property, which a string does not have.
\<close>

theorem bare_recipient_counterexample:
  "map mail_to (snd (send_emails_nodemailer sample_numerics sample_env sample_sendMail
                      sample_bare_request)) = [JUndefined]"
proof -
  have f: "field sample_bare_request ''summary'' = JStr ''Done.''"
    "field sample_bare_request ''actionItems'' = JArr []"
    "field sample_bare_request ''recipients'' = JArr [JStr ''ann@example.com'']"
    by (simp_all add: sample_bare_request_def property_def)
  have "list_all is_action_item ([] :: unit jsval list)"
    by simp
  from send_emails_nodemailer_rendered [OF f this, of sample_numerics sample_env sample_sendMail]
  show ?thesis
    by (simp add: recipient_mail_def sample_sendMail_def)
qed

text \<open>
  C5, amended. The renderer of the Resend variant accepts a recipient given as a bare
  address and one given as a record, and turns each into a display text: a bare string
  is used as it is, a record with a (nonempty, text) \<open>email\<close> gives that field, and a
  record without \<open>email\<close> gives the string coercion of the whole record, which is
  \<open>[object Object]\<close>. The nodemailer variant renders no recipient list; its dispatcher
  takes a record and addresses the message for it to the record's \<open>email\<close>.
\<close>

theorem recipient_normalized:
  "recipient_display N (JStr s) = Inr (JStr s)
   \<and> recipientsList N (JArr [JStr s]) = Inr s
   \<and> (property kvs ''email'' = JStr e \<and> e \<noteq> [] \<longrightarrow>
        recipient_display N (JObj kvs) = Inr (JStr e)
        \<and> recipientsList N (JArr [JObj kvs]) = Inr e)
   \<and> (map_of kvs ''email'' = None \<longrightarrow>
        recipient_display N (JObj kvs) = Inr (JObj kvs)
        \<and> recipientsList N (JArr [JObj kvs]) = js_toString N (JObj kvs))
   \<and> (map_of kvs ''email'' = None \<and> map_of kvs ''toString'' = None \<longrightarrow>
        recipientsList N (JArr [JObj kvs]) = Inr ''[object Object]'')
   \<and> (is_recipient r \<longrightarrow> recipientsList N (JArr [r]) = Inr (display_string r))
   \<and> send_each env sendMail html attempted [JObj kvs] =
        (sendMail attempted
           \<lparr>mail_from = (case env ''EMAIL_FROM'' of None \<Rightarrow> JUndefined | Some f \<Rightarrow> JStr f),
            mail_to = property kvs ''email'',
            mail_subject = ''Meeting Summary and Action Items'',
            mail_html = html\<rparr>,
         attempted @
           [\<lparr>mail_from = (case env ''EMAIL_FROM'' of None \<Rightarrow> JUndefined | Some f \<Rightarrow> JStr f),
             mail_to = property kvs ''email'',
             mail_subject = ''Meeting Summary and Action Items'',
             mail_html = html\<rparr>])"
proof (intro conjI impI)
  show "is_recipient r \<Longrightarrow> recipientsList N (JArr [r]) = Inr (display_string r)"
    using recipientsList_recipients [of "[r]" N] by (simp add: banner_of_def)
  show "send_each env sendMail html attempted [JObj kvs] =
        (sendMail attempted
           \<lparr>mail_from = (case env ''EMAIL_FROM'' of None \<Rightarrow> JUndefined | Some f \<Rightarrow> JStr f),
            mail_to = property kvs ''email'',
            mail_subject = ''Meeting Summary and Action Items'',
            mail_html = html\<rparr>,
         attempted @
           [\<lparr>mail_from = (case env ''EMAIL_FROM'' of None \<Rightarrow> JUndefined | Some f \<Rightarrow> JStr f),
             mail_to = property kvs ''email'',
             mail_subject = ''Meeting Summary and Action Items'',
             mail_html = html\<rparr>])"
    by (simp add: recipient_mail_def split: option.splits)
qed (auto simp: recipient_display_def recipientsList_def property_def)

theorem recipient_normalized_witness:
  "recipientsList sample_numerics (JArr [JStr ''ann@example.com'']) = Inr ''ann@example.com''
   \<and> property [(''name'', JStr ''Raj''), (''email'', JStr ''raj@example.com'')] ''email''
        = (JStr ''raj@example.com'' :: unit jsval)
   \<and> recipientsList sample_numerics
        (JArr [JObj [(''name'', JStr ''Raj''), (''email'', JStr ''raj@example.com'')]])
        = Inr ''raj@example.com''
   \<and> map_of [(''name'', JStr ''Li'' :: unit jsval)] ''email'' = None
   \<and> map_of [(''name'', JStr ''Li'' :: unit jsval)] ''toString'' = None
   \<and> recipientsList sample_numerics (JArr [JObj [(''name'', JStr ''Li'')]]) = Inr ''[object Object]''
   \<and> is_recipient (JObj [(''name'', JStr ''Li'')] :: unit jsval)
   \<and> display_string (JObj [(''name'', JStr ''Li'')] :: unit jsval) = ''[object Object]''
   \<and> send_each sample_env sample_sendMail ''<p>Done.</p>'' []
        [JObj [(''name'', JStr ''Raj''), (''email'', JStr ''raj@example.com'')]] =
        (Some (Failure ''550 mailbox unavailable''),
         [\<lparr>mail_from = JStr ''minutes@example.com'',
           mail_to = JStr ''raj@example.com'',
           mail_subject = ''Meeting Summary and Action Items'',
           mail_html = ''<p>Done.</p>''\<rparr>])"
proof -
  note raj = recipient_normalized [of sample_numerics "''ann@example.com''"
      "[(''name'', JStr ''Raj''), (''email'', JStr ''raj@example.com'')]" "''raj@example.com''"
      "JObj [(''name'', JStr ''Li'')]" sample_env sample_sendMail "''<p>Done.</p>''" "[]"]
  note li = recipient_normalized [of sample_numerics "''ann@example.com''"
      "[(''name'', JStr ''Li'')]" "''raj@example.com''"
      "JObj [(''name'', JStr ''Li'')]" sample_env sample_sendMail "''<p>Done.</p>''" "[]"]
  have r: "is_recipient (JObj [(''name'', JStr ''Li'')] :: unit jsval)"
    by (simp add: is_recipient_def has_email_def property_def)
  have d: "display_string (JObj [(''name'', JStr ''Li'')] :: unit jsval) = ''[object Object]''"
    by (simp add: display_string_def property_def)
  from raj li r d show ?thesis
    by (simp add: property_def sample_env_def sample_sendMail_def)
qed

end
